theory Spec2Isabelle
  imports Main
begin

section \<open>JavaScript values used by the handlers\<close>

text \<open>
  The handlers read counters out of string metadata with \<open>parseInt\<close> and write them back
  with \<open>toString\<close>. A number is either \<open>NaN\<close> or an integer; the integers of the model
  are exact, which agrees with the doubles of the language up to
  \<open>MAX_SAFE_INTEGER\<close>.
\<close>

datatype jsnum = NaN | Num int

definition MAX_SAFE_INTEGER :: int where
  "MAX_SAFE_INTEGER = 9007199254740991"

text \<open>White space that \<open>parseInt\<close> skips (the code units below 256).\<close>

definition is_space :: "char \<Rightarrow> bool" where
  "is_space c = (of_char c \<in> {9, 10, 11, 12, 13, 32, 160::nat})"

definition digit_of :: "char \<Rightarrow> nat option" where
  "digit_of c =
     (let n = (of_char c :: nat) in
      if 48 \<le> n \<and> n \<le> 57 then Some (n - 48)
      else if 97 \<le> n \<and> n \<le> 122 then Some (n - 87)
      else if 65 \<le> n \<and> n \<le> 90 then Some (n - 55)
      else None)"

definition in_radix :: "nat \<Rightarrow> char \<Rightarrow> bool" where
  "in_radix r c = (case digit_of c of Some d \<Rightarrow> d < r | None \<Rightarrow> False)"

definition digit_value :: "char \<Rightarrow> nat" where
  "digit_value c = (case digit_of c of Some d \<Rightarrow> d | None \<Rightarrow> 0)"

definition radix_value :: "nat \<Rightarrow> string \<Rightarrow> nat" where
  "radix_value r z = foldl (\<lambda>a c. a * r + digit_value c) 0 z"

text \<open>
  \<open>parseInt(string)\<close> with no radix argument, after the language standard: skip leading
  white space, take a sign, take a \<open>0x\<close> prefix as radix 16, read the longest run of
  digits, and give \<open>NaN\<close> when that run is empty.
\<close>

definition parseInt :: "string \<Rightarrow> jsnum" where
  "parseInt str =
     (let s = dropWhile is_space str;
          neg = (s \<noteq> [] \<and> hd s = CHR ''-'');
          s1 = (if s \<noteq> [] \<and> (hd s = CHR ''-'' \<or> hd s = CHR ''+'') then tl s else s);
          hex = (take 2 s1 = ''0x'' \<or> take 2 s1 = ''0X'');
          r = (if hex then 16 else 10);
          s2 = (if hex then drop 2 s1 else s1);
          z = takeWhile (in_radix r) s2
      in if z = [] then NaN
         else Num ((if neg then - 1 else 1) * int (radix_value r z)))"

text \<open>\<open>parseInt(undefined)\<close> reads the text \<open>undefined\<close> and gives \<open>NaN\<close>.\<close>

definition parseInt_prop :: "string option \<Rightarrow> jsnum" where
  "parseInt_prop v = (case v of None \<Rightarrow> parseInt ''undefined'' | Some s \<Rightarrow> parseInt s)"

definition digit_char :: "nat \<Rightarrow> char" where
  "digit_char d = ''0123456789'' ! d"

fun digits :: "nat \<Rightarrow> string" where
  "digits n = (if n < 10 then [digit_char n] else digits (n div 10) @ [digit_char (n mod 10)])"

declare digits.simps [simp del]

text \<open>\<open>Number.prototype.toString\<close> on the numbers of the model.\<close>

definition toString :: "jsnum \<Rightarrow> string" where
  "toString x =
     (case x of NaN \<Rightarrow> ''NaN''
      | Num n \<Rightarrow> (if n < 0 then CHR ''-'' # digits (nat (- n)) else digits (nat n)))"

text \<open>\<open>x + 1\<close>, \<open>x || d\<close> and \<open>x >= y\<close> on numbers: \<open>NaN\<close> is absorbing, falsy and unordered.\<close>

definition js_add :: "jsnum \<Rightarrow> int \<Rightarrow> jsnum" where
  "js_add x k = (case x of NaN \<Rightarrow> NaN | Num n \<Rightarrow> Num (n + k))"

definition js_or :: "jsnum \<Rightarrow> int \<Rightarrow> jsnum" where
  "js_or x d = (case x of NaN \<Rightarrow> Num d | Num n \<Rightarrow> (if n = 0 then Num d else Num n))"

definition js_ge :: "jsnum \<Rightarrow> jsnum \<Rightarrow> bool" where
  "js_ge x y = (case (x, y) of (Num a, Num b) \<Rightarrow> a \<ge> b | _ \<Rightarrow> False)"

text \<open>
  Truthiness of a string that may be \<open>undefined\<close> or \<open>null\<close> (\<open>None\<close>): the empty string
  is falsy too.
\<close>

definition truthy_text :: "string option \<Rightarrow> bool" where
  "truthy_text v = (case v of None \<Rightarrow> False | Some s \<Rightarrow> s \<noteq> [])"

text \<open>
  What \<open>JSON.parse\<close> gives for a request body. The numbers of a body are taken to be
  integers; an object is the list of its properties.
\<close>

datatype json = JNull | JBool bool | JNum int | JStr string
  | JArr "json list" | JObj "(string \<times> json) list"

section \<open>The billing platform\<close>

text \<open>
  All durable state lives in the external billing platform. The platform is modelled as a
  record of the objects it holds; every list is newest first, the order in which the
  platform's list calls return objects. A call is logged in \<open>calls\<close> whether it succeeds
  or not, and throws when the platform rejects it: because its operation is in \<open>outage\<close>
  (network failure, platform down) or because the object it names does not exist. A
  rejected call changes nothing but the log.
\<close>

type_synonym metadata = "string \<rightharpoonup> string"

record customer =
  cus_id :: string
  cus_email :: string
  cus_name :: string
  cus_default_payment_method :: "string option"

record product =
  prod_id :: string
  prod_name :: string
  prod_description :: "string option"
  prod_metadata :: metadata

record price =
  price_id :: string
  price_product :: string
  unit_amount :: int
  currency :: string
  recurring_interval :: "string option"

record coupon =
  coupon_id :: string
  coupon_name :: string
  percent_off :: int
  duration :: string
  duration_in_months :: int

record subscription_item =
  item_id :: string
  item_price :: price

record subscription =
  sub_id :: string
  sub_customer :: string
  sub_items :: "subscription_item list"
  sub_discounts :: "string list"
  sub_metadata :: metadata
  sub_status :: string
  sub_client_secret :: string

datatype api_op =
    CustomersList | CustomersCreate | CustomersUpdate | PaymentMethodsAttach
  | ProductsList | ProductsCreate | PricesList | PricesCreate
  | CouponsRetrieve | CouponsCreate
  | SubscriptionsCreate | SubscriptionsRetrieve | SubscriptionsUpdate

record platform =
  customers :: "customer list"
  attached :: "(string \<times> string) list"
  products :: "product list"
  prices :: "price list"
  coupons :: "coupon list"
  subscriptions :: "subscription list"
  next_id :: nat
  outage :: "api_op list"
  calls :: "api_op list"

type_synonym 'a api_result = "(string + 'a) \<times> platform"

definition api :: "api_op \<Rightarrow> (platform \<Rightarrow> 'a api_result) \<Rightarrow> platform \<Rightarrow> 'a api_result" where
  "api op run st =
     (let st1 = st\<lparr>calls := calls st @ [op]\<rparr> in
      if op \<in> set (outage st) then (Inl ''api_connection_error'', st1) else run st1)"

text \<open>Inline price terms (\<open>price_data\<close>) of a subscription item.\<close>

record price_data =
  pd_currency :: string
  pd_product_name :: string
  pd_product_description :: "string option"
  pd_unit_amount :: int
  pd_interval :: string

text \<open>
  The platform turns inline price terms into a price object of its own, under a fresh
  identifier; that price lives on the subscription item and is not part of the catalog.
\<close>

definition inline_price :: "price_data \<Rightarrow> platform \<Rightarrow> price \<times> platform" where
  "inline_price pd st =
     (\<lparr>price_id = ''price_'' @ digits (next_id st),
       price_product = ''prod_'' @ digits (next_id st),
       unit_amount = pd_unit_amount pd,
       currency = pd_currency pd,
       recurring_interval = Some (pd_interval pd)\<rparr>,
      st\<lparr>next_id := Suc (next_id st)\<rparr>)"

definition lookup_subscription :: "string \<Rightarrow> platform \<Rightarrow> subscription option" where
  "lookup_subscription sid st = find (\<lambda>s. sub_id s = sid) (subscriptions st)"

definition stripe_subscriptions_retrieve :: "string \<Rightarrow> platform \<Rightarrow> subscription api_result" where
  "stripe_subscriptions_retrieve sid =
     api SubscriptionsRetrieve (\<lambda>st.
       case lookup_subscription sid st of
         None \<Rightarrow> (Inl (''No such subscription: '' @ sid), st)
       | Some s \<Rightarrow> (Inr s, st))"

text \<open>
  The parameters of \<open>subscriptions.update\<close> that the handlers send: items named by their
  identifier with new inline price terms, and metadata to merge, where \<open>null\<close>
  (\<open>None\<close>) unsets a key.
\<close>

record subscription_update =
  upd_items :: "(string \<times> price_data) list"
  upd_metadata :: "string \<rightharpoonup> string option"

definition merge_metadata :: "metadata \<Rightarrow> (string \<rightharpoonup> string option) \<Rightarrow> metadata" where
  "merge_metadata md ps =
     (\<lambda>k. case ps k of None \<Rightarrow> md k | Some None \<Rightarrow> None | Some (Some v) \<Rightarrow> Some v)"

fun update_items ::
  "(string \<times> price_data) list \<Rightarrow> subscription_item list \<Rightarrow> platform
     \<Rightarrow> (subscription_item list \<times> platform) option" where
  "update_items [] its st = Some (its, st)"
| "update_items ((iid, pd) # rest) its st =
     (if iid \<in> set (map item_id its) then
        (case inline_price pd st of (p, st1) \<Rightarrow>
           update_items rest
             (map (\<lambda>it. if item_id it = iid then it\<lparr>item_price := p\<rparr> else it) its) st1)
      else None)"

definition stripe_subscriptions_update ::
  "string \<Rightarrow> subscription_update \<Rightarrow> platform \<Rightarrow> subscription api_result" where
  "stripe_subscriptions_update sid params =
     api SubscriptionsUpdate (\<lambda>st.
       case lookup_subscription sid st of
         None \<Rightarrow> (Inl (''No such subscription: '' @ sid), st)
       | Some s \<Rightarrow>
           (case update_items (upd_items params) (sub_items s) st of
              None \<Rightarrow> (Inl ''Invalid subscription_item id'', st)
            | Some (its, st1) \<Rightarrow>
                (let s' = s\<lparr>sub_items := its,
                            sub_metadata := merge_metadata (sub_metadata s) (upd_metadata params)\<rparr>
                 in (Inr s',
                     st1\<lparr>subscriptions :=
                       map (\<lambda>x. if sub_id x = sid then s' else x) (subscriptions st1)\<rparr>))))"

section \<open>Requests and responses\<close>

record request =
  httpMethod :: string
  headers :: "(string \<times> string) list"
  body :: "string option"

datatype response_body = Raw string | Stringify json

record response =
  statusCode :: nat
  res_headers :: "(string \<times> string) list"
  res_body :: response_body

text \<open>
  \<open>process.env\<close>: the two secrets, \<open>None\<close> when unset. The secret key configures the
  client library; the model of the platform does not depend on it, and what the platform
  answers to a call made without a key is outside the model.
\<close>

record environment =
  STRIPE_SECRET_KEY :: "string option"
  STRIPE_WEBHOOK_SECRET :: "string option"

section \<open>The webhook handler (stripe-webhook.js)\<close>

text \<open>
  stripe-webhook.js holds the handler modelled here and, after it, an earlier handler that
  verifies the signature in the same way and then only logs the event.
\<close>

definition webhook_headers :: "(string \<times> string) list" where
  "webhook_headers =
     [(''Access-Control-Allow-Origin'', ''*''),
      (''Access-Control-Allow-Headers'', ''Content-Type''),
      (''Access-Control-Allow-Methods'', ''POST''),
      (''Content-Type'', ''application/json'')]"

text \<open>
  A verified payload is a platform event: a type tag and the object the event is about.
  For invoice events the object is the invoice (its identifier, and the subscription it
  bills, which may be \<open>null\<close>); for \<open>customer.subscription.deleted\<close> it is the
  subscription.
\<close>

record event_object =
  obj_id :: string
  obj_subscription :: "string option"

record stripe_event =
  ev_type :: string
  ev_object :: event_object

text \<open>
  \<open>stripe.webhooks.constructEvent\<close> belongs to the platform's client library. Its
  signature check and its decoding of the payload are parameters; what is written out is
  the library's contract: it throws on a missing payload, a missing signature header, a
  missing signing secret (the keyed hash refuses a key that is not a string), a signature
  that does not verify and a payload that does not decode.
\<close>

record webhooks =
  verifyHeader :: "string \<Rightarrow> string \<Rightarrow> string \<Rightarrow> bool"
  decode :: "string \<Rightarrow> stripe_event option"

definition constructEvent ::
  "webhooks \<Rightarrow> string option \<Rightarrow> string option \<Rightarrow> string option \<Rightarrow> string + stripe_event" where
  "constructEvent lib payload sig secret =
     (case payload of
        None \<Rightarrow> Inl ''No webhook payload was provided.''
      | Some p \<Rightarrow>
          if p = [] then Inl ''No webhook payload was provided.''
          else if \<not> truthy_text sig then Inl ''No stripe-signature header value was provided.''
          else (case (sig, secret) of
                  (Some h, Some k) \<Rightarrow>
                    if verifyHeader lib p h k then
                      (case decode lib p of
                         None \<Rightarrow> Inl ''Unexpected token in JSON''
                       | Some e \<Rightarrow> Inr e)
                    else Inl ''No signatures found matching the expected signature for payload.''
                | _ \<Rightarrow> Inl ''The \"key\" argument must be of type string.''))"

definition regular_price_data :: price_data where
  "regular_price_data =
     \<lparr>pd_currency = ''aud'',
      pd_product_name = ''Weekly Meal Plan'',
      pd_product_description = Some ''Regular weekly meal plan'',
      pd_unit_amount = 2000,
      pd_interval = ''week''\<rparr>"

text \<open>
  The object spread \<open>{...metadata}\<close>: an object with the keys of the metadata, to which
  the handler then adds its own keys (\<open>null\<close> is \<open>Some None\<close>).
\<close>

definition spread :: "metadata \<Rightarrow> (string \<rightharpoonup> string option)" where
  "spread md = (\<lambda>k. map_option Some (md k))"

definition received :: response where
  "received =
     \<lparr>statusCode = 200, res_headers = webhook_headers,
      res_body = Stringify (JObj [(''received'', JBool True)])\<rparr>"

definition processing_failed :: response where
  "processing_failed =
     \<lparr>statusCode = 500, res_headers = webhook_headers,
      res_body = Stringify (JObj [(''error'', JStr ''Webhook processing failed'')])\<rparr>"

text \<open>
  The \<open>switch\<close> on the event type, inside its \<open>try\<close>: any call that throws, and the read
  of \<open>items.data[0].id\<close> on a subscription with no item, ends in the 500 response.
\<close>

definition process_event :: "stripe_event \<Rightarrow> platform \<Rightarrow> response \<times> platform" where
  "process_event ev st =
     (if ev_type ev = ''invoice.payment_succeeded'' then
        (let invoice = ev_object ev in
         case obj_subscription invoice of
           None \<Rightarrow> (received, st)
         | Some sid \<Rightarrow>
             if sid = [] then (received, st)
             else
               (case stripe_subscriptions_retrieve sid st of
                  (Inl err, st1) \<Rightarrow> (processing_failed, st1)
                | (Inr subscription, st1) \<Rightarrow>
                    (case sub_metadata subscription ''promotional_weeks_used'' of
                       None \<Rightarrow> (received, st1)
                     | Some used \<Rightarrow>
                         (let weeksUsed = js_add (parseInt used) 1;
                              totalPromotionalWeeks =
                                js_or (parseInt_prop
                                  (sub_metadata subscription ''promotional_weeks_total'')) 4
                          in
                          if js_ge weeksUsed totalPromotionalWeeks then
                            (case sub_items subscription of
                               [] \<Rightarrow> (processing_failed, st1)
                             | item # _ \<Rightarrow>
                                 (case stripe_subscriptions_update (sub_id subscription)
                                    \<lparr>upd_items = [(item_id item, regular_price_data)],
                                     upd_metadata =
                                       (spread (sub_metadata subscription))
                                         (''promotional_weeks_used'' \<mapsto> None,
                                          ''promotional_weeks_total'' \<mapsto> None,
                                          ''price_tier'' \<mapsto> Some ''regular'')\<rparr> st1 of
                                    (Inl err, st2) \<Rightarrow> (processing_failed, st2)
                                  | (Inr _, st2) \<Rightarrow> (received, st2)))
                          else
                            (case stripe_subscriptions_update (sub_id subscription)
                               \<lparr>upd_items = [],
                                upd_metadata =
                                  (spread (sub_metadata subscription))
                                    (''promotional_weeks_used'' \<mapsto> Some (toString weeksUsed))\<rparr> st1 of
                               (Inl err, st2) \<Rightarrow> (processing_failed, st2)
                             | (Inr _, st2) \<Rightarrow> (received, st2))))))
      else if ev_type ev = ''customer.subscription.deleted'' then (received, st)
      else if ev_type ev = ''invoice.payment_failed'' then (received, st)
      else (received, st))"

definition webhook_handler ::
  "webhooks \<Rightarrow> environment \<Rightarrow> request \<Rightarrow> platform \<Rightarrow> response \<times> platform" where
  "webhook_handler lib env event st =
     (if httpMethod event \<noteq> ''POST'' then
        (\<lparr>statusCode = 405, res_headers = webhook_headers,
          res_body = Stringify (JObj [(''error'', JStr ''Only POST requests allowed'')])\<rparr>, st)
      else
        (let sig = map_of (headers event) ''stripe-signature'';
             endpointSecret = STRIPE_WEBHOOK_SECRET env
         in case constructEvent lib (body event) sig endpointSecret of
              Inl message \<Rightarrow>
                (\<lparr>statusCode = 400, res_headers = webhook_headers,
                  res_body = Raw (''Webhook Error: '' @ message)\<rparr>, st)
            | Inr stripeEvent \<Rightarrow> process_event stripeEvent st))"

text \<open>Deliveries one after the other, each against the state the last one left.\<close>

fun deliver :: "stripe_event list \<Rightarrow> platform \<Rightarrow> platform" where
  "deliver [] st = st"
| "deliver (ev # evs) st = deliver evs (snd (process_event ev st))"

text \<open>A successful-payment event for an invoice of a subscription.\<close>

definition payment_succeeded :: "string \<Rightarrow> string \<Rightarrow> stripe_event" where
  "payment_succeeded invoice_id sid =
     \<lparr>ev_type = ''invoice.payment_succeeded'',
      ev_object = \<lparr>obj_id = invoice_id, obj_subscription = Some sid\<rparr>\<rparr>"

subsection \<open>The states of the promotional counter\<close>

definition is_regular_price :: "price \<Rightarrow> bool" where
  "is_regular_price p \<longleftrightarrow>
     unit_amount p = 2000 \<and> currency p = ''aud'' \<and> recurring_interval p = Some ''week''"

definition active_price :: "subscription \<Rightarrow> price option" where
  "active_price s = (case sub_items s of [] \<Rightarrow> None | item # _ \<Rightarrow> Some (item_price item))"

text \<open>The counter invariant \<open>0 <= weeks_used <= weeks_total\<close>, where the counters are present.\<close>

definition counter_invariant :: "subscription \<Rightarrow> bool" where
  "counter_invariant s =
     (case sub_metadata s ''promotional_weeks_used'' of
        None \<Rightarrow> True
      | Some us \<Rightarrow>
          (case (parseInt us, parseInt_prop (sub_metadata s ''promotional_weeks_total'')) of
             (Num u, Num t) \<Rightarrow> 0 \<le> u \<and> u \<le> t
           | _ \<Rightarrow> False))"

text \<open>
  \<open>promotional-active\<close>: both counters present, \<open>0 <= weeks_used < weeks_total\<close>, within the
  integers a double holds exactly. \<open>regular\<close>: the counters absent and the regular price
  active.
\<close>

definition promotional_active :: "subscription \<Rightarrow> bool" where
  "promotional_active s =
     (case (sub_metadata s ''promotional_weeks_used'', sub_metadata s ''promotional_weeks_total'') of
        (Some us, Some ts) \<Rightarrow>
          (case (parseInt us, parseInt ts) of
             (Num u, Num t) \<Rightarrow> 0 \<le> u \<and> u < t \<and> t \<le> MAX_SAFE_INTEGER
           | _ \<Rightarrow> False)
      | _ \<Rightarrow> False)"

definition regular :: "subscription \<Rightarrow> bool" where
  "regular s =
     (sub_metadata s ''promotional_weeks_used'' = None
      \<and> sub_metadata s ''promotional_weeks_total'' = None
      \<and> (case active_price s of None \<Rightarrow> False | Some p \<Rightarrow> is_regular_price p))"

section \<open>The platform calls of the checkout handlers\<close>

text \<open>
  Values that come from the request body are JSON values. The client library sends a
  string, a number or a boolean as text; the platform rejects an array or an object where
  it expects text.
\<close>

definition scalar_text :: "json \<Rightarrow> string option" where
  "scalar_text v =
     (case v of
        JStr s \<Rightarrow> Some s
      | JNum n \<Rightarrow> Some (toString (Num n))
      | JBool b \<Rightarrow> Some (if b then ''true'' else ''false'')
      | _ \<Rightarrow> None)"

definition stripe_customers_list :: "json \<Rightarrow> nat \<Rightarrow> platform \<Rightarrow> customer list api_result" where
  "stripe_customers_list email limit =
     api CustomersList (\<lambda>st.
       case scalar_text email of
         None \<Rightarrow> (Inl ''Invalid string'', st)
       | Some e \<Rightarrow> (Inr (take limit (filter (\<lambda>c. cus_email c = e) (customers st))), st))"

text \<open>
  Whether a payment-method token is valid is the platform's business; the model accepts
  every token for a customer that exists.
\<close>

definition stripe_paymentMethods_attach :: "json \<Rightarrow> string \<Rightarrow> platform \<Rightarrow> unit api_result" where
  "stripe_paymentMethods_attach payment_method cid =
     api PaymentMethodsAttach (\<lambda>st.
       case scalar_text payment_method of
         None \<Rightarrow> (Inl ''Invalid string'', st)
       | Some pm \<Rightarrow>
           if cid \<in> set (map cus_id (customers st))
           then (Inr (), st\<lparr>attached := (pm, cid) # attached st\<rparr>)
           else (Inl (''No such customer: '' @ cid), st))"

definition stripe_customers_update :: "string \<Rightarrow> json \<Rightarrow> platform \<Rightarrow> customer api_result" where
  "stripe_customers_update cid default_payment_method =
     api CustomersUpdate (\<lambda>st.
       case scalar_text default_payment_method of
         None \<Rightarrow> (Inl ''Invalid string'', st)
       | Some pm \<Rightarrow>
           (case find (\<lambda>c. cus_id c = cid) (customers st) of
              None \<Rightarrow> (Inl (''No such customer: '' @ cid), st)
            | Some c \<Rightarrow>
                (Inr (c\<lparr>cus_default_payment_method := Some pm\<rparr>),
                 st\<lparr>customers :=
                      map (\<lambda>x. if cus_id x = cid
                                then x\<lparr>cus_default_payment_method := Some pm\<rparr> else x)
                        (customers st)\<rparr>)))"

definition stripe_customers_create :: "json \<Rightarrow> json \<Rightarrow> json \<Rightarrow> platform \<Rightarrow> customer api_result" where
  "stripe_customers_create email name payment_method =
     api CustomersCreate (\<lambda>st.
       case (scalar_text email, scalar_text name, scalar_text payment_method) of
         (Some e, Some n, Some pm) \<Rightarrow>
           (let c = \<lparr>cus_id = ''cus_'' @ digits (next_id st), cus_email = e, cus_name = n,
                     cus_default_payment_method = Some pm\<rparr>
            in (Inr c,
                st\<lparr>customers := c # customers st,
                   attached := (pm, cus_id c) # attached st,
                   next_id := Suc (next_id st)\<rparr>))
       | _ \<Rightarrow> (Inl ''Invalid string'', st))"

definition stripe_products_list :: "nat \<Rightarrow> platform \<Rightarrow> product list api_result" where
  "stripe_products_list limit = api ProductsList (\<lambda>st. (Inr (take limit (products st)), st))"

definition stripe_products_create ::
  "string \<Rightarrow> string option \<Rightarrow> metadata \<Rightarrow> platform \<Rightarrow> product api_result" where
  "stripe_products_create name description md =
     api ProductsCreate (\<lambda>st.
       let p = \<lparr>prod_id = ''prod_'' @ digits (next_id st), prod_name = name,
                 prod_description = description, prod_metadata = md\<rparr>
       in (Inr p, st\<lparr>products := p # products st, next_id := Suc (next_id st)\<rparr>))"

definition stripe_prices_list :: "string \<Rightarrow> nat \<Rightarrow> platform \<Rightarrow> price list api_result" where
  "stripe_prices_list pid limit =
     api PricesList (\<lambda>st. (Inr (take limit (filter (\<lambda>p. price_product p = pid) (prices st))), st))"

definition stripe_prices_create ::
  "string \<Rightarrow> int \<Rightarrow> string \<Rightarrow> string \<Rightarrow> platform \<Rightarrow> price api_result" where
  "stripe_prices_create pid amount cur interval =
     api PricesCreate (\<lambda>st.
       if pid \<in> set (map prod_id (products st)) then
         (let p = \<lparr>price_id = ''price_'' @ digits (next_id st), price_product = pid,
                   unit_amount = amount, currency = cur, recurring_interval = Some interval\<rparr>
          in (Inr p, st\<lparr>prices := p # prices st, next_id := Suc (next_id st)\<rparr>))
       else (Inl (''No such product: '' @ pid), st))"

definition stripe_coupons_retrieve :: "string \<Rightarrow> platform \<Rightarrow> coupon api_result" where
  "stripe_coupons_retrieve cid =
     api CouponsRetrieve (\<lambda>st.
       case find (\<lambda>c. coupon_id c = cid) (coupons st) of
         None \<Rightarrow> (Inl (''No such coupon: '' @ cid), st)
       | Some c \<Rightarrow> (Inr c, st))"

definition stripe_coupons_create :: "coupon \<Rightarrow> platform \<Rightarrow> coupon api_result" where
  "stripe_coupons_create c =
     api CouponsCreate (\<lambda>st.
       if coupon_id c \<in> set (map coupon_id (coupons st))
       then (Inl (''Coupon already exists.''), st)
       else (Inr c, st\<lparr>coupons := c # coupons st\<rparr>))"

text \<open>
  The parameters of \<open>subscriptions.create\<close>. An item names a catalog price or carries
  inline price terms. The constant parameters (\<open>payment_behavior: 'default_incomplete'\<close>,
  \<open>payment_settings\<close>, \<open>expand\<close>) are what makes the platform answer with an incomplete
  subscription and the client secret of its first payment.
\<close>

datatype item_spec = ByPrice string | Inline price_data

record subscription_params =
  sp_customer :: string
  sp_items :: "item_spec list"
  sp_discounts :: "string list"
  sp_metadata :: "(string \<times> json) list"

fun create_items ::
  "item_spec list \<Rightarrow> platform \<Rightarrow> (string + subscription_item list) \<times> platform" where
  "create_items [] st = (Inr [], st)"
| "create_items (ByPrice pid # rest) st =
     (case find (\<lambda>p. price_id p = pid) (prices st) of
        None \<Rightarrow> (Inl (''No such price: '' @ pid), st)
      | Some p \<Rightarrow>
          (case create_items rest (st\<lparr>next_id := Suc (next_id st)\<rparr>) of
             (Inl e, st') \<Rightarrow> (Inl e, st')
           | (Inr its, st') \<Rightarrow>
               (Inr (\<lparr>item_id = ''si_'' @ digits (next_id st), item_price = p\<rparr> # its), st')))"
| "create_items (Inline pd # rest) st =
     (case inline_price pd st of
        (p, st1) \<Rightarrow>
          (case create_items rest (st1\<lparr>next_id := Suc (next_id st1)\<rparr>) of
             (Inl e, st') \<Rightarrow> (Inl e, st')
           | (Inr its, st') \<Rightarrow>
               (Inr (\<lparr>item_id = ''si_'' @ digits (next_id st1), item_price = p\<rparr> # its), st')))"

definition stripe_subscriptions_create ::
  "subscription_params \<Rightarrow> platform \<Rightarrow> subscription api_result" where
  "stripe_subscriptions_create params =
     api SubscriptionsCreate (\<lambda>st.
       if sp_customer params \<notin> set (map cus_id (customers st))
       then (Inl (''No such customer: '' @ sp_customer params), st)
       else if \<not> list_all (\<lambda>c. c \<in> set (map coupon_id (coupons st))) (sp_discounts params)
       then (Inl ''No such coupon'', st)
       else if \<not> list_all (\<lambda>(k, v). scalar_text v \<noteq> None) (sp_metadata params)
       then (Inl ''Invalid string'', st)
       else
         (case create_items (sp_items params) st of
            (Inl e, _) \<Rightarrow> (Inl e, st)
          | (Inr its, st1) \<Rightarrow>
              (let s = \<lparr>sub_id = ''sub_'' @ digits (next_id st1),
                        sub_customer = sp_customer params,
                        sub_items = its,
                        sub_discounts = sp_discounts params,
                        sub_metadata =
                          map_of (map (\<lambda>(k, v). (k, case scalar_text v of None \<Rightarrow> [] | Some t \<Rightarrow> t))
                                    (sp_metadata params)),
                        sub_status = ''incomplete'',
                        sub_client_secret = ''pi_'' @ digits (next_id st1) @ ''_secret''\<rparr>
               in (Inr s,
                   st1\<lparr>subscriptions := s # subscriptions st1,
                       next_id := Suc (next_id st1)\<rparr>))))"

section \<open>The checkout handlers (create-subscription.js and its variants)\<close>

definition checkout_headers :: "(string \<times> string) list" where
  "checkout_headers =
     [(''Access-Control-Allow-Origin'', ''*''),
      (''Access-Control-Allow-Headers'', ''Content-Type''),
      (''Access-Control-Allow-Methods'', ''POST, OPTIONS''),
      (''Content-Type'', ''application/json'')]"

definition reply :: "nat \<Rightarrow> (string \<times> json) list \<Rightarrow> response" where
  "reply code props =
     \<lparr>statusCode = code, res_headers = checkout_headers, res_body = Stringify (JObj props)\<rparr>"

definition failure :: "nat \<Rightarrow> string \<Rightarrow> string \<Rightarrow> response" where
  "failure code err message = reply code [(''error'', JStr err), (''message'', JStr message)]"

text \<open>Truthiness of a value read from the parsed body; \<open>None\<close> is \<open>undefined\<close>.\<close>

definition truthy :: "json option \<Rightarrow> bool" where
  "truthy v =
     (case v of
        None \<Rightarrow> False
      | Some JNull \<Rightarrow> False
      | Some (JBool b) \<Rightarrow> b
      | Some (JNum n) \<Rightarrow> n \<noteq> 0
      | Some (JStr s) \<Rightarrow> s \<noteq> []
      | Some _ \<Rightarrow> True)"

text \<open>
  \<open>const { customer_email, customer_name, payment_method_id } = JSON.parse(event.body)\<close>:
  destructuring \<open>null\<close> throws, an object gives its properties, any other value gives
  \<open>undefined\<close> three times.
\<close>

definition destructure :: "json \<Rightarrow> (json option \<times> json option \<times> json option) option" where
  "destructure v =
     (case v of
        JNull \<Rightarrow> None
      | JObj props \<Rightarrow>
          Some (map_of props ''customer_email'', map_of props ''customer_name'',
                map_of props ''payment_method_id'')
      | _ \<Rightarrow> Some (None, None, None))"

text \<open>
  The part of the handler before the first platform call, the same in create-subscription.js
  and in the variants part_000 and part_001. \<open>JSON.parse\<close> is a parameter (\<open>None\<close> when it
  throws); what it throws, and the destructuring of \<open>null\<close>, reach the outer \<open>catch\<close>.
\<close>

definition validate_request ::
  "(string \<Rightarrow> json option) \<Rightarrow> environment \<Rightarrow> request \<Rightarrow> response + (json \<times> json \<times> json)" where
  "validate_request JSON_parse env event =
     (if httpMethod event = ''OPTIONS'' then
        Inl \<lparr>statusCode = 200, res_headers = checkout_headers, res_body = Raw []\<rparr>
      else if httpMethod event \<noteq> ''POST'' then
        Inl (reply 405 [(''error'', JStr ''Only POST requests allowed'')])
      else if \<not> truthy_text (STRIPE_SECRET_KEY env) then
        Inl (reply 500 [(''error'', JStr ''Payment system not configured properly'')])
      else if \<not> truthy_text (body event) then
        Inl (reply 400 [(''error'', JStr ''No subscription data received'')])
      else
        (case JSON_parse (case body event of None \<Rightarrow> [] | Some b \<Rightarrow> b) of
           None \<Rightarrow>
             Inl (failure 500 ''Something went wrong with the subscription''
                    ''Unexpected token in JSON'')
         | Some parsed \<Rightarrow>
             (case destructure parsed of
                None \<Rightarrow>
                  Inl (failure 500 ''Something went wrong with the subscription''
                         ''Cannot destructure property of null'')
              | Some (customer_email, customer_name, payment_method_id) \<Rightarrow>
                  if \<not> truthy customer_email \<or> \<not> truthy customer_name
                     \<or> \<not> truthy payment_method_id
                  then Inl (reply 400 [(''error'', JStr ''Missing required fields'')])
                  else
                    (case (customer_email, customer_name, payment_method_id) of
                       (Some e, Some n, Some pm) \<Rightarrow> Inr (e, n, pm)
                     | _ \<Rightarrow> Inl (reply 400 [(''error'', JStr ''Missing required fields'')])))))"

text \<open>The customer step, the same in create-subscription.js, part_000 and part_001.\<close>

definition resolve_customer ::
  "json \<Rightarrow> json \<Rightarrow> json \<Rightarrow> platform \<Rightarrow> (response + customer) \<times> platform" where
  "resolve_customer customer_email customer_name payment_method_id st =
     (case stripe_customers_list customer_email 1 st of
        (Inl message, st1) \<Rightarrow>
          (Inl (failure 400 ''Failed to set up customer account'' message), st1)
      | (Inr existingCustomers, st1) \<Rightarrow>
          (case existingCustomers of
             customer # _ \<Rightarrow>
               (case stripe_paymentMethods_attach payment_method_id (cus_id customer) st1 of
                  (Inl message, st2) \<Rightarrow>
                    (Inl (failure 400 ''Failed to set up customer account'' message), st2)
                | (Inr _, st2) \<Rightarrow>
                    (case stripe_customers_update (cus_id customer) payment_method_id st2 of
                       (Inl message, st3) \<Rightarrow>
                         (Inl (failure 400 ''Failed to set up customer account'' message), st3)
                     | (Inr _, st3) \<Rightarrow> (Inr customer, st3)))
           | [] \<Rightarrow>
               (case stripe_customers_create customer_email customer_name payment_method_id st1 of
                  (Inl message, st2) \<Rightarrow>
                    (Inl (failure 400 ''Failed to set up customer account'' message), st2)
                | (Inr customer, st2) \<Rightarrow> (Inr customer, st2))))"

text \<open>The customer step of the variant part_002: an existing customer is used as found.\<close>

definition find_or_create_customer ::
  "json \<Rightarrow> json \<Rightarrow> json \<Rightarrow> platform \<Rightarrow> (response + customer) \<times> platform" where
  "find_or_create_customer customer_email customer_name payment_method_id st =
     (case stripe_customers_list customer_email 1 st of
        (Inl message, st1) \<Rightarrow>
          (Inl (failure 400 ''Failed to set up customer account'' message), st1)
      | (Inr existingCustomers, st1) \<Rightarrow>
          (case existingCustomers of
             customer # _ \<Rightarrow> (Inr customer, st1)
           | [] \<Rightarrow>
               (case stripe_customers_create customer_email customer_name payment_method_id st1 of
                  (Inl message, st2) \<Rightarrow>
                    (Inl (failure 400 ''Failed to set up customer account'' message), st2)
                | (Inr customer, st2) \<Rightarrow> (Inr customer, st2))))"

text \<open>
  The success response: \<open>client_secret\<close> is
  \<open>subscription.latest_invoice.payment_intent.client_secret\<close>, which the platform returns
  with the subscription.
\<close>

definition subscription_created :: "subscription \<Rightarrow> customer \<Rightarrow> response" where
  "subscription_created subscription customer =
     reply 200
       [(''subscription_id'', JStr (sub_id subscription)),
        (''client_secret'', JStr (sub_client_secret subscription)),
        (''customer_id'', JStr (cus_id customer))]"

definition create_and_reply ::
  "subscription_params \<Rightarrow> customer \<Rightarrow> platform \<Rightarrow> response \<times> platform" where
  "create_and_reply params customer st =
     (case stripe_subscriptions_create params st of
        (Inl message, st1) \<Rightarrow> (failure 400 ''Failed to create subscription'' message, st1)
      | (Inr subscription, st1) \<Rightarrow> (subscription_created subscription customer, st1))"

subsection \<open>create-subscription.js\<close>

definition create_subscription_handler ::
  "(string \<Rightarrow> json option) \<Rightarrow> environment \<Rightarrow> request \<Rightarrow> platform \<Rightarrow> response \<times> platform" where
  "create_subscription_handler JSON_parse env event st =
     (case validate_request JSON_parse env event of
        Inl early \<Rightarrow> (early, st)
      | Inr (customer_email, customer_name, payment_method_id) \<Rightarrow>
          (case resolve_customer customer_email customer_name payment_method_id st of
             (Inl early, st1) \<Rightarrow> (early, st1)
           | (Inr customer, st1) \<Rightarrow>
               (case stripe_products_list 10 st1 of
                  (Inl message, st2) \<Rightarrow>
                    (failure 400 ''Failed to create subscription'' message, st2)
                | (Inr existingProducts, st2) \<Rightarrow>
                    (case (case find (\<lambda>p. prod_name p = ''Weekly Meal Plan'') existingProducts of
                             None \<Rightarrow> stripe_products_create ''Weekly Meal Plan'' None Map.empty st2
                           | Some product \<Rightarrow> (Inr product, st2)) of
                       (Inl message, st3) \<Rightarrow>
                         (failure 400 ''Failed to create subscription'' message, st3)
                     | (Inr product, st3) \<Rightarrow>
                         (case stripe_prices_create (prod_id product) 3000 ''aud'' ''week'' st3 of
                            (Inl message, st4) \<Rightarrow>
                              (failure 400 ''Failed to create subscription'' message, st4)
                          | (Inr price, st4) \<Rightarrow>
                              create_and_reply
                                \<lparr>sp_customer = cus_id customer,
                                 sp_items = [ByPrice (price_id price)],
                                 sp_discounts = [],
                                 sp_metadata =
                                   [(''customer_email'', customer_email),
                                    (''customer_name'', customer_name),
                                    (''plan_type'', JStr ''weekly-meal-plan'')]\<rparr>
                                customer st4)))))"

subsection \<open>The coupon step (part_000)\<close>

definition first_4_weeks_coupon :: coupon where
  "first_4_weeks_coupon =
     \<lparr>coupon_id = ''FIRST_4_WEEKS_50_OFF'',
      coupon_name = ''First 4 Weeks - 50% OFF'',
      percent_off = 50,
      duration = ''repeating'',
      duration_in_months = 1\<rparr>"

text \<open>
  \<open>couponId\<close> starts as \<open>null\<close>; the inner \<open>try\<close> retrieves the coupon, its \<open>catch\<close> creates
  it, and the outer \<open>catch\<close> only logs.
\<close>

definition promotional_coupon :: "platform \<Rightarrow> string option \<times> platform" where
  "promotional_coupon st =
     (case stripe_coupons_retrieve ''FIRST_4_WEEKS_50_OFF'' st of
        (Inr existingCoupon, st1) \<Rightarrow> (Some (coupon_id existingCoupon), st1)
      | (Inl retrieveError, st1) \<Rightarrow>
          (case stripe_coupons_create first_4_weeks_coupon st1 of
             (Inr coupon, st2) \<Rightarrow> (Some (coupon_id coupon), st2)
           | (Inl couponError, st2) \<Rightarrow> (None, st2)))"

text \<open>\<open>if (couponId) subscriptionData.discounts = [{ coupon: couponId }]\<close>\<close>

definition discounts_for :: "string option \<Rightarrow> string list" where
  "discounts_for couponId =
     (if truthy_text couponId then (case couponId of None \<Rightarrow> [] | Some c \<Rightarrow> [c]) else [])"

definition coupon_price_data :: price_data where
  "coupon_price_data =
     \<lparr>pd_currency = ''aud'',
      pd_product_name = ''Weekly Meal Plan'',
      pd_product_description = Some ''Personalized weekly meal plans with nutrition coaching'',
      pd_unit_amount = 2000,
      pd_interval = ''week''\<rparr>"

text \<open>The first handler of part_000: customer, coupon, subscription on inline price terms.\<close>

definition coupon_subscription_handler ::
  "(string \<Rightarrow> json option) \<Rightarrow> environment \<Rightarrow> request \<Rightarrow> platform \<Rightarrow> response \<times> platform" where
  "coupon_subscription_handler JSON_parse env event st =
     (case validate_request JSON_parse env event of
        Inl early \<Rightarrow> (early, st)
      | Inr (customer_email, customer_name, payment_method_id) \<Rightarrow>
          (case resolve_customer customer_email customer_name payment_method_id st of
             (Inl early, st1) \<Rightarrow> (early, st1)
           | (Inr customer, st1) \<Rightarrow>
               (case promotional_coupon st1 of
                  (couponId, st2) \<Rightarrow>
                    create_and_reply
                      \<lparr>sp_customer = cus_id customer,
                       sp_items = [Inline coupon_price_data],
                       sp_discounts = discounts_for couponId,
                       sp_metadata =
                         [(''customer_email'', customer_email),
                          (''customer_name'', customer_name),
                          (''plan_type'', JStr ''weekly-meal-plan'')]\<rparr>
                      customer st2)))"

subsection \<open>Catalog reconciliation (part_000, second handler)\<close>

definition is_plan_price :: "price \<Rightarrow> bool" where
  "is_plan_price p \<longleftrightarrow>
     unit_amount p = 2000 \<and> currency p = ''aud'' \<and> recurring_interval p = Some ''week''"

text \<open>
  Step 1 of that handler: find the product by its \<open>plan_type\<close> tag among the first 100, or
  create it; find a price of 2000 aud a week among the first 10 prices of the product, or
  create it. The result is \<open>priceId\<close>, or the message of the call that threw.
\<close>

definition reconcile_catalog :: "platform \<Rightarrow> (string + string) \<times> platform" where
  "reconcile_catalog st =
     (case stripe_products_list 100 st of
        (Inl message, st1) \<Rightarrow> (Inl message, st1)
      | (Inr listed, st1) \<Rightarrow>
          (case (case find (\<lambda>p. prod_metadata p ''plan_type'' = Some ''weekly-meal-plan'') listed of
                   None \<Rightarrow>
                     stripe_products_create ''Weekly Meal Plan''
                       (Some ''Personalized weekly meal plans with nutrition coaching'')
                       [''plan_type'' \<mapsto> ''weekly-meal-plan''] st1
                 | Some product \<Rightarrow> (Inr product, st1)) of
             (Inl message, st2) \<Rightarrow> (Inl message, st2)
           | (Inr product, st2) \<Rightarrow>
               (case stripe_prices_list (prod_id product) 10 st2 of
                  (Inl message, st3) \<Rightarrow> (Inl message, st3)
                | (Inr listed_prices, st3) \<Rightarrow>
                    (case find is_plan_price listed_prices of
                       Some price \<Rightarrow> (Inr (price_id price), st3)
                     | None \<Rightarrow>
                         (case stripe_prices_create (prod_id product) 2000 ''aud'' ''week'' st3 of
                            (Inl message, st4) \<Rightarrow> (Inl message, st4)
                          | (Inr price, st4) \<Rightarrow> (Inr (price_id price), st4))))))"

definition catalog_subscription_handler ::
  "(string \<Rightarrow> json option) \<Rightarrow> environment \<Rightarrow> request \<Rightarrow> platform \<Rightarrow> response \<times> platform" where
  "catalog_subscription_handler JSON_parse env event st =
     (case validate_request JSON_parse env event of
        Inl early \<Rightarrow> (early, st)
      | Inr (customer_email, customer_name, payment_method_id) \<Rightarrow>
          (case reconcile_catalog st of
             (Inl message, st1) \<Rightarrow> (failure 400 ''Failed to set up product pricing'' message, st1)
           | (Inr priceId, st1) \<Rightarrow>
               (case resolve_customer customer_email customer_name payment_method_id st1 of
                  (Inl early, st2) \<Rightarrow> (early, st2)
                | (Inr customer, st2) \<Rightarrow>
                    (case promotional_coupon st2 of
                       (couponId, st3) \<Rightarrow>
                         create_and_reply
                           \<lparr>sp_customer = cus_id customer,
                            sp_items = [ByPrice priceId],
                            sp_discounts = discounts_for couponId,
                            sp_metadata =
                              [(''customer_email'', customer_email),
                               (''customer_name'', customer_name),
                               (''plan_type'', JStr ''weekly-meal-plan'')]\<rparr>
                           customer st3))))"

subsection \<open>Promotional metadata (part_001)\<close>

definition promotional_price_data :: price_data where
  "promotional_price_data =
     \<lparr>pd_currency = ''aud'',
      pd_product_name = ''Weekly Meal Plan (Promotional Rate)'',
      pd_product_description = None,
      pd_unit_amount = 1000,
      pd_interval = ''week''\<rparr>"

definition promotional_subscription_handler ::
  "(string \<Rightarrow> json option) \<Rightarrow> environment \<Rightarrow> request \<Rightarrow> platform \<Rightarrow> response \<times> platform" where
  "promotional_subscription_handler JSON_parse env event st =
     (case validate_request JSON_parse env event of
        Inl early \<Rightarrow> (early, st)
      | Inr (customer_email, customer_name, payment_method_id) \<Rightarrow>
          (case resolve_customer customer_email customer_name payment_method_id st of
             (Inl early, st1) \<Rightarrow> (early, st1)
           | (Inr customer, st1) \<Rightarrow>
               create_and_reply
                 \<lparr>sp_customer = cus_id customer,
                  sp_items = [Inline promotional_price_data],
                  sp_discounts = [],
                  sp_metadata =
                    [(''customer_email'', customer_email),
                     (''customer_name'', customer_name),
                     (''plan_type'', JStr ''weekly-meal-plan''),
                     (''promotional_weeks_used'', JStr ''0''),
                     (''promotional_weeks_total'', JStr ''4''),
                     (''regular_price_amount'', JStr ''2000'')]\<rparr>
                 customer st1))"

section \<open>An example platform state\<close>

definition example_subscription :: subscription where
  "example_subscription =
     \<lparr>sub_id = ''sub_1'', sub_customer = ''cus_1'',
      sub_items = [\<lparr>item_id = ''si_1'',
                    item_price = \<lparr>price_id = ''price_1'', price_product = ''prod_1'',
                                  unit_amount = 1000, currency = ''aud'',
                                  recurring_interval = Some ''week''\<rparr>\<rparr>],
      sub_discounts = [],
      sub_metadata = [''customer_email'' \<mapsto> ''a@x.com'', ''customer_name'' \<mapsto> ''A'',
                      ''plan_type'' \<mapsto> ''weekly-meal-plan'',
                      ''promotional_weeks_used'' \<mapsto> ''0'',
                      ''promotional_weeks_total'' \<mapsto> ''4'',
                      ''regular_price_amount'' \<mapsto> ''2000''],
      sub_status = ''active'', sub_client_secret = ''pi_1_secret''\<rparr>"

definition example_platform :: platform where
  "example_platform =
     \<lparr>customers = [\<lparr>cus_id = ''cus_1'', cus_email = ''a@x.com'', cus_name = ''A'',
                     cus_default_payment_method = Some ''pm_1''\<rparr>],
      attached = [(''pm_1'', ''cus_1'')], products = [], prices = [], coupons = [],
      subscriptions = [example_subscription], next_id = 2, outage = [], calls = []\<rparr>"

text \<open>What the platform holds for a subscription: a metadata value, the active unit amount.\<close>

definition subscription_metadata :: "string \<Rightarrow> string \<Rightarrow> platform \<Rightarrow> string option" where
  "subscription_metadata sid k st =
     (case lookup_subscription sid st of None \<Rightarrow> None | Some s \<Rightarrow> sub_metadata s k)"

definition active_unit_amount :: "string \<Rightarrow> platform \<Rightarrow> int option" where
  "active_unit_amount sid st =
     (case lookup_subscription sid st of
        None \<Rightarrow> None
      | Some s \<Rightarrow> (case active_price s of None \<Rightarrow> None | Some p \<Rightarrow> Some (unit_amount p)))"

text \<open>
  The example subscription in its last promotional week, with another amount stored as
  \<open>regular_price_amount\<close>.
\<close>

definition last_week_subscription :: subscription where
  "last_week_subscription =
     example_subscription\<lparr>sub_metadata := (sub_metadata example_subscription)
        (''promotional_weeks_used'' \<mapsto> ''3'', ''regular_price_amount'' \<mapsto> ''2500'')\<rparr>"

definition last_week_platform :: platform where
  "last_week_platform = example_platform\<lparr>subscriptions := [last_week_subscription]\<rparr>"

text \<open>
  An example library: a signature verifies when it is the secret followed by the payload,
  and every payload decodes to a payment for the example subscription.
\<close>

definition example_webhooks :: webhooks where
  "example_webhooks =
     \<lparr>verifyHeader = (\<lambda>payload header secret. header = secret @ payload),
      decode = (\<lambda>payload. Some (payment_succeeded payload ''sub_1''))\<rparr>"

definition example_environment :: environment where
  "example_environment =
     \<lparr>STRIPE_SECRET_KEY = Some ''sk_test_1'', STRIPE_WEBHOOK_SECRET = Some ''whsec_1''\<rparr>"

text \<open>A checkout body, and what \<open>JSON.parse\<close> makes of it.\<close>

definition example_parse :: "string \<Rightarrow> json option" where
  "example_parse b =
     (if b = ''{\"customer_email\":\"a@x.com\",\"customer_name\":\"A\",\"payment_method_id\":\"pm_2\"}''
      then Some (JObj [(''customer_email'', JStr ''a@x.com''), (''customer_name'', JStr ''A''),
                       (''payment_method_id'', JStr ''pm_2'')])
      else if b = ''{\"customer_email\":\"a@x.com\"}''
      then Some (JObj [(''customer_email'', JStr ''a@x.com'')])
      else None)"

definition checkout_request :: request where
  "checkout_request =
     \<lparr>httpMethod = ''POST'', headers = [],
      body = Some ''{\"customer_email\":\"a@x.com\",\"customer_name\":\"A\",\"payment_method_id\":\"pm_2\"}''\<rparr>"

text \<open>The example platform while the coupon calls fail.\<close>

definition coupon_outage_platform :: platform where
  "coupon_outage_platform = example_platform\<lparr>outage := [CouponsRetrieve, CouponsCreate]\<rparr>"

definition example_customer :: customer where
  "example_customer =
     \<lparr>cus_id = ''cus_1'', cus_email = ''a@x.com'', cus_name = ''A'',
      cus_default_payment_method = Some ''pm_1''\<rparr>"

section \<open>Numbers as text: \<open>parseInt\<close> reads back what \<open>toString\<close> writes\<close>

lemma digit_cases: "d < 10 \<Longrightarrow> d \<in> {0, 1, 2, 3, 4, 5, 6, 7, 8, 9::nat}"
  by auto

lemma digit_char_plain:
  assumes "d < 10"
  shows "in_radix 10 (digit_char d)" "digit_value (digit_char d) = d"
  using digit_cases [OF assms]
  by (auto simp: digit_char_def in_radix_def digit_of_def digit_value_def)

lemma radix_value_snoc: "radix_value r (z @ [c]) = radix_value r z * r + digit_value c"
  by (simp add: radix_value_def)

lemma digits_all_decimal: "\<forall>c \<in> set (digits n). in_radix 10 c"
proof (induction n rule: digits.induct)
  case (1 n)
  show ?case
  proof (cases "n < 10")
    case True
    then show ?thesis by (simp add: digits.simps [of n] digit_char_plain)
  next
    case False
    with 1 show ?thesis by (simp add: digits.simps [of n] digit_char_plain)
  qed
qed

lemma digits_value: "radix_value 10 (digits n) = n"
proof (induction n rule: digits.induct)
  case (1 n)
  show ?case
  proof (cases "n < 10")
    case True
    then show ?thesis by (simp add: digits.simps [of n] radix_value_def digit_char_plain)
  next
    case False
    with 1 show ?thesis
      by (simp add: digits.simps [of n] radix_value_snoc digit_char_plain)
  qed
qed

lemma digits_not_Nil: "digits n \<noteq> []"
  by (simp add: digits.simps [of n])

lemma in_radix_10_plain:
  "in_radix 10 c \<Longrightarrow>
     \<not> is_space c \<and> c \<noteq> CHR ''-'' \<and> c \<noteq> CHR ''+'' \<and> c \<noteq> CHR ''x'' \<and> c \<noteq> CHR ''X''"
  by (auto simp: in_radix_def digit_of_def is_space_def Let_def split: option.splits if_splits)

lemma digits_no_hex_prefix: "take 2 (digits n) \<noteq> ''0x'' \<and> take 2 (digits n) \<noteq> ''0X''"
proof -
  have all: "\<forall>c \<in> set (take 2 (digits n)). in_radix 10 c"
    using digits_all_decimal [of n] by (meson in_set_takeD)
  have "\<not> in_radix 10 CHR ''x''" "\<not> in_radix 10 CHR ''X''"
    by (simp_all add: in_radix_def digit_of_def)
  with all show ?thesis by fastforce
qed

lemma parseInt_digits: "parseInt (digits n) = Num (int n)"
proof -
  have hd_ok: "in_radix 10 (hd (digits n))"
    using digits_all_decimal [of n] digits_not_Nil [of n] by simp
  have dw: "dropWhile is_space (digits n) = digits n"
    using in_radix_10_plain [OF hd_ok] digits_not_Nil [of n]
    by (cases "digits n") simp_all
  have tw: "takeWhile (in_radix 10) (digits n) = digits n"
    using digits_all_decimal [of n] by (simp add: takeWhile_eq_all_conv)
  show ?thesis
    using in_radix_10_plain [OF hd_ok] digits_no_hex_prefix [of n] digits_not_Nil [of n]
    by (simp add: parseInt_def dw tw digits_value Let_def)
qed

lemma parseInt_minus_digits: "parseInt (CHR ''-'' # digits n) = Num (- int n)"
proof -
  have tw: "takeWhile (in_radix 10) (digits n) = digits n"
    using digits_all_decimal [of n] by (simp add: takeWhile_eq_all_conv)
  have sp: "\<not> is_space CHR ''-''" by (simp add: is_space_def)
  show ?thesis
    using digits_no_hex_prefix [of n] digits_not_Nil [of n]
    by (simp add: parseInt_def sp tw digits_value Let_def)
qed

lemma parseInt_toString: "parseInt (toString (Num n)) = Num n"
  by (simp add: toString_def parseInt_digits parseInt_minus_digits)

section \<open>What one delivery does to a subscription\<close>

lemma find_map_replace:
  "sub_id s' = sid \<Longrightarrow>
   find (\<lambda>x. sub_id x = sid') (map (\<lambda>x. if sub_id x = sid then s' else x) xs) =
     (if sid' = sid then map_option (\<lambda>_. s') (find (\<lambda>x. sub_id x = sid) xs)
      else find (\<lambda>x. sub_id x = sid') xs)"
  by (induction xs) auto

lemma lookup_sub_id: "lookup_subscription sid st = Some s \<Longrightarrow> sub_id s = sid"
  by (auto simp: lookup_subscription_def find_Some_iff)

lemma update_items_frame:
  "update_items ps its st = Some (its', st1) \<Longrightarrow>
     st1 = st\<lparr>next_id := next_id st + length ps\<rparr>"
  by (induction ps its st arbitrary: its' st1 rule: update_items.induct)
     (auto simp: inline_price_def split: if_splits)

lemma retrieve_result:
  "stripe_subscriptions_retrieve sid st =
     ((if SubscriptionsRetrieve \<in> set (outage st) then Inl ''api_connection_error''
       else case lookup_subscription sid st of
              None \<Rightarrow> Inl (''No such subscription: '' @ sid) | Some s \<Rightarrow> Inr s),
      st\<lparr>calls := calls st @ [SubscriptionsRetrieve]\<rparr>)"
  by (simp add: stripe_subscriptions_retrieve_def api_def lookup_subscription_def Let_def
      split: option.splits)

lemma update_failed:
  "stripe_subscriptions_update sid params st = (Inl e, st') \<Longrightarrow>
     st' = st\<lparr>calls := calls st @ [SubscriptionsUpdate]\<rparr>"
  by (auto simp: stripe_subscriptions_update_def api_def lookup_subscription_def Let_def
      split: option.splits if_splits)

lemma update_done:
  assumes "stripe_subscriptions_update sid params st = (Inr s', st')"
  shows "\<exists>s its. lookup_subscription sid st = Some s
           \<and> update_items (upd_items params) (sub_items s)
                (st\<lparr>calls := calls st @ [SubscriptionsUpdate]\<rparr>) = Some (its, 
                   st\<lparr>calls := calls st @ [SubscriptionsUpdate], next_id := next_id st + length (upd_items params)\<rparr>)
           \<and> s' = s\<lparr>sub_items := its,
                     sub_metadata := merge_metadata (sub_metadata s) (upd_metadata params)\<rparr>
           \<and> outage st' = outage st
           \<and> (\<forall>sid'. lookup_subscription sid' st' =
                 (if sid' = sid then Some s' else lookup_subscription sid' st))"
proof -
  let ?st1 = "st\<lparr>calls := calls st @ [SubscriptionsUpdate]\<rparr>"
  from assms have avail: "SubscriptionsUpdate \<notin> set (outage st)"
    by (auto simp: stripe_subscriptions_update_def api_def Let_def split: if_splits)
  from assms avail obtain s where s: "lookup_subscription sid st = Some s"
    by (cases "lookup_subscription sid st")
       (auto simp: stripe_subscriptions_update_def api_def Let_def lookup_subscription_def)
  from assms avail s obtain its st2 where
    its: "update_items (upd_items params) (sub_items s) ?st1 = Some (its, st2)"
    by (cases "update_items (upd_items params) (sub_items s) ?st1")
       (auto simp: stripe_subscriptions_update_def api_def Let_def lookup_subscription_def)
  have st2: "st2 = ?st1\<lparr>next_id := next_id st + length (upd_items params)\<rparr>"
    using update_items_frame [OF its] by simp
  from assms avail s its have s': "s' = s\<lparr>sub_items := its,
      sub_metadata := merge_metadata (sub_metadata s) (upd_metadata params)\<rparr>"
    and st': "st' = st2\<lparr>subscriptions := map (\<lambda>x. if sub_id x = sid then s' else x) (subscriptions st2)\<rparr>"
    by (auto simp: stripe_subscriptions_update_def api_def Let_def lookup_subscription_def)
  have sid: "sub_id s' = sid" using lookup_sub_id [OF s] s' by simp
  have look: "lookup_subscription sid' st' =
      (if sid' = sid then Some s' else lookup_subscription sid' st)" for sid'
    using s by (simp add: st' st2 lookup_subscription_def find_map_replace [OF sid])
  show ?thesis
    using s its s' look by (simp add: st2 st')
qed

lemma merge_spread_set:
  "merge_metadata md ((spread md)(k \<mapsto> Some v)) = md(k \<mapsto> v)"
  by (rule ext) (simp add: merge_metadata_def spread_def split: option.splits)

lemma merge_spread_clear:
  "merge_metadata md ((spread md)(a \<mapsto> None, b \<mapsto> None, c \<mapsto> Some v)) k =
     (if k = c then Some v else if k = a \<or> k = b then None else md k)"
  by (simp add: merge_metadata_def spread_def split: option.splits)

lemma lookup_calls [simp]:
  "lookup_subscription sid (st\<lparr>calls := c\<rparr>) = lookup_subscription sid st"
  by (simp add: lookup_subscription_def)

lemma process_event_outage: "outage (snd (process_event ev st)) = outage st"
proof -
  have upd: "outage st2 = outage st1"
    if "stripe_subscriptions_update sid params st1 = (r, st2)" for sid params st1 r st2
    using that update_done [of sid params st1 _ st2] update_failed [of sid params st1 _ st2]
    by (cases r) auto
  show ?thesis
    by (auto simp: process_event_def Let_def retrieve_result dest!: upd
        split: option.splits prod.splits sum.splits list.splits if_splits)
qed

lemma update_lookup:
  "stripe_subscriptions_update sid params st = (Inr s', st') \<Longrightarrow>
     lookup_subscription sid' st' = (if sid' = sid then Some s' else lookup_subscription sid' st)"
  using update_done [of sid params st s' st'] by blast

lemma update_succeeds:
  assumes "SubscriptionsUpdate \<notin> set (outage st)"
    and "lookup_subscription sid st = Some s"
    and "update_items (upd_items params) (sub_items s)
           (st\<lparr>calls := calls st @ [SubscriptionsUpdate]\<rparr>) = Some (its, st2)"
  shows "\<exists>st'. stripe_subscriptions_update sid params st =
           (Inr (s\<lparr>sub_items := its,
                   sub_metadata := merge_metadata (sub_metadata s) (upd_metadata params)\<rparr>), st')"
  using assms
  by (simp add: stripe_subscriptions_update_def api_def Let_def)

lemma payment_count:
  assumes ev: "ev_type ev = ''invoice.payment_succeeded''"
      "obj_subscription (ev_object ev) = Some sid" "sid \<noteq> []"
    and s: "lookup_subscription sid st = Some s"
    and us: "sub_metadata s ''promotional_weeks_used'' = Some us"
    and lt: "\<not> js_ge (js_add (parseInt us) 1)
               (js_or (parseInt_prop (sub_metadata s ''promotional_weeks_total'')) 4)"
    and avail: "SubscriptionsRetrieve \<notin> set (outage st)" "SubscriptionsUpdate \<notin> set (outage st)"
  shows "fst (process_event ev st) = received"
    and "lookup_subscription sid' (snd (process_event ev st)) =
           (if sid' = sid
            then Some (s\<lparr>sub_metadata := (sub_metadata s)
                     (''promotional_weeks_used'' \<mapsto> toString (js_add (parseInt us) 1))\<rparr>)
            else lookup_subscription sid' st)"
proof -
  let ?st1 = "st\<lparr>calls := calls st @ [SubscriptionsRetrieve]\<rparr>"
  let ?params = "\<lparr>upd_items = [], upd_metadata = (spread (sub_metadata s))
      (''promotional_weeks_used'' \<mapsto> Some (toString (js_add (parseInt us) 1)))\<rparr>"
  let ?s' = "s\<lparr>sub_metadata := (sub_metadata s)
                     (''promotional_weeks_used'' \<mapsto> toString (js_add (parseInt us) 1))\<rparr>"
  have sid: "sub_id s = sid" by (rule lookup_sub_id [OF s])
  have "\<exists>st'. stripe_subscriptions_update sid ?params ?st1 =
           (Inr (s\<lparr>sub_items := sub_items s,
                   sub_metadata := merge_metadata (sub_metadata s) (upd_metadata ?params)\<rparr>), st')"
    by (rule update_succeeds) (use avail s in simp_all)
  then obtain st' where upd: "stripe_subscriptions_update sid ?params ?st1 = (Inr ?s', st')"
    by (auto simp: merge_spread_set)
  have run: "process_event ev st = (received, st')"
    using ev s us lt avail upd
    by (simp add: process_event_def Let_def retrieve_result sid)
  show "fst (process_event ev st) = received" by (simp add: run)
  show "lookup_subscription sid' (snd (process_event ev st)) =
           (if sid' = sid then Some ?s' else lookup_subscription sid' st)"
    using update_lookup [OF upd] by (simp add: run)
qed

lemma payment_switch:
  assumes ev: "ev_type ev = ''invoice.payment_succeeded''"
      "obj_subscription (ev_object ev) = Some sid" "sid \<noteq> []"
    and s: "lookup_subscription sid st = Some s"
    and us: "sub_metadata s ''promotional_weeks_used'' = Some us"
    and ge: "js_ge (js_add (parseInt us) 1)
               (js_or (parseInt_prop (sub_metadata s ''promotional_weeks_total'')) 4)"
    and items: "sub_items s = it # rest"
    and avail: "SubscriptionsRetrieve \<notin> set (outage st)" "SubscriptionsUpdate \<notin> set (outage st)"
  shows "fst (process_event ev st) = received"
    and "\<exists>p. is_regular_price p \<and> (\<forall>sid'. lookup_subscription sid' (snd (process_event ev st)) =
           (if sid' = sid
            then Some (s\<lparr>sub_items := map (\<lambda>x. if item_id x = item_id it then x\<lparr>item_price := p\<rparr> else x) (it # rest),
                        sub_metadata := (sub_metadata s)
                          (''promotional_weeks_used'' := None, ''promotional_weeks_total'' := None,
                           ''price_tier'' \<mapsto> ''regular'')\<rparr>)
            else lookup_subscription sid' st))"
proof -
  let ?st1 = "st\<lparr>calls := calls st @ [SubscriptionsRetrieve]\<rparr>"
  let ?st1u = "?st1\<lparr>calls := calls ?st1 @ [SubscriptionsUpdate]\<rparr>"
  let ?params = "\<lparr>upd_items = [(item_id it, regular_price_data)],
      upd_metadata = (spread (sub_metadata s))
        (''promotional_weeks_used'' \<mapsto> None, ''promotional_weeks_total'' \<mapsto> None,
         ''price_tier'' \<mapsto> Some ''regular'')\<rparr>"
  let ?p = "fst (inline_price regular_price_data ?st1u)"
  let ?md = "(sub_metadata s)
                          (''promotional_weeks_used'' := None, ''promotional_weeks_total'' := None,
                           ''price_tier'' \<mapsto> ''regular'')"
  let ?s' = "s\<lparr>sub_items := map (\<lambda>x. if item_id x = item_id it then x\<lparr>item_price := ?p\<rparr> else x) (it # rest),
                sub_metadata := ?md\<rparr>"
  have sid: "sub_id s = sid" by (rule lookup_sub_id [OF s])
  have md: "merge_metadata (sub_metadata s) (upd_metadata ?params) = ?md"
    by (rule ext) (simp add: merge_spread_clear)
  have "\<exists>st'. stripe_subscriptions_update sid ?params ?st1 =
           (Inr (s\<lparr>sub_items := map (\<lambda>x. if item_id x = item_id it then x\<lparr>item_price := ?p\<rparr> else x) (it # rest),
                   sub_metadata := merge_metadata (sub_metadata s) (upd_metadata ?params)\<rparr>), st')"
    by (rule update_succeeds) (use avail s items in \<open>simp_all add: inline_price_def\<close>)
  then obtain st' where upd: "stripe_subscriptions_update sid ?params ?st1 = (Inr ?s', st')"
    unfolding md by blast
  have run: "process_event ev st = (received, st')"
    using ev s us ge avail upd items
    by (simp add: process_event_def Let_def retrieve_result sid)
  show "fst (process_event ev st) = received" by (simp add: run)
  have "is_regular_price ?p"
    by (simp add: is_regular_price_def inline_price_def regular_price_data_def)
  moreover have "\<forall>sid'. lookup_subscription sid' (snd (process_event ev st)) =
           (if sid' = sid then Some ?s' else lookup_subscription sid' st)"
    using update_lookup [OF upd] by (simp add: run)
  ultimately show "\<exists>p. is_regular_price p \<and> (\<forall>sid'. lookup_subscription sid' (snd (process_event ev st)) =
           (if sid' = sid
            then Some (s\<lparr>sub_items := map (\<lambda>x. if item_id x = item_id it then x\<lparr>item_price := p\<rparr> else x) (it # rest),
                        sub_metadata := ?md\<rparr>)
            else lookup_subscription sid' st))"
    by blast
qed

lemma update_effect:
  assumes "stripe_subscriptions_update sid0 params st = (r, st')"
    and "lookup_subscription sid st = Some s"
  shows "lookup_subscription sid st' = Some s \<or>
         (sid = sid0 \<and> (\<exists>its st2. update_items (upd_items params) (sub_items s)
              (st\<lparr>calls := calls st @ [SubscriptionsUpdate]\<rparr>) = Some (its, st2)
            \<and> lookup_subscription sid st' = Some (s\<lparr>sub_items := its,
                 sub_metadata := merge_metadata (sub_metadata s) (upd_metadata params)\<rparr>)))"
proof (cases r)
  case (Inl e)
  with assms(1) have "st' = st\<lparr>calls := calls st @ [SubscriptionsUpdate]\<rparr>"
    by (simp add: update_failed)
  with assms(2) show ?thesis by simp
next
  case (Inr s')
  with assms(1) have upd: "stripe_subscriptions_update sid0 params st = (Inr s', st')" by simp
  show ?thesis
  proof (cases "sid = sid0")
    case True
    from update_done [OF upd] assms(2) True show ?thesis by auto
  next
    case False
    with update_lookup [OF upd, of sid] assms(2) show ?thesis by simp
  qed
qed

lemma process_event_quiet:
  assumes "\<not> (ev_type ev = ''invoice.payment_succeeded'' \<and>
             (\<exists>sid0. obj_subscription (ev_object ev) = Some sid0 \<and> sid0 \<noteq> []))"
  shows "process_event ev st = (received, st)"
  using assms by (auto simp: process_event_def Let_def split: option.splits)

lemma process_event_no_subscription:
  assumes "ev_type ev = ''invoice.payment_succeeded''"
      "obj_subscription (ev_object ev) = Some sid0" "sid0 \<noteq> []"
    and "SubscriptionsRetrieve \<in> set (outage st) \<or> lookup_subscription sid0 st = None"
  shows "process_event ev st =
           (processing_failed, st\<lparr>calls := calls st @ [SubscriptionsRetrieve]\<rparr>)"
  using assms by (auto simp: process_event_def Let_def retrieve_result)

lemma process_event_found:
  assumes "ev_type ev = ''invoice.payment_succeeded''"
      "obj_subscription (ev_object ev) = Some sid0" "sid0 \<noteq> []"
    and "SubscriptionsRetrieve \<notin> set (outage st)" "lookup_subscription sid0 st = Some sub"
  shows "process_event ev st =
     (let st1 = st\<lparr>calls := calls st @ [SubscriptionsRetrieve]\<rparr> in
      case sub_metadata sub ''promotional_weeks_used'' of
        None \<Rightarrow> (received, st1)
      | Some used \<Rightarrow>
          if js_ge (js_add (parseInt used) 1)
               (js_or (parseInt_prop (sub_metadata sub ''promotional_weeks_total'')) 4)
          then (case sub_items sub of
                  [] \<Rightarrow> (processing_failed, st1)
                | item # _ \<Rightarrow>
                    (case stripe_subscriptions_update sid0
                       \<lparr>upd_items = [(item_id item, regular_price_data)],
                        upd_metadata = (spread (sub_metadata sub))
                          (''promotional_weeks_used'' \<mapsto> None,
                           ''promotional_weeks_total'' \<mapsto> None,
                           ''price_tier'' \<mapsto> Some ''regular'')\<rparr> st1 of
                       (Inl err, st2) \<Rightarrow> (processing_failed, st2)
                     | (Inr _, st2) \<Rightarrow> (received, st2)))
          else (case stripe_subscriptions_update sid0
                  \<lparr>upd_items = [],
                   upd_metadata = (spread (sub_metadata sub))
                     (''promotional_weeks_used'' \<mapsto> Some (toString (js_add (parseInt used) 1)))\<rparr> st1 of
                  (Inl err, st2) \<Rightarrow> (processing_failed, st2)
                | (Inr _, st2) \<Rightarrow> (received, st2)))"
  using assms lookup_sub_id [OF assms(5)]
  by (simp add: process_event_def Let_def retrieve_result split: option.splits list.splits)

lemma update_step:
  assumes s: "lookup_subscription sid st = Some s"
  shows "\<exists>s'. lookup_subscription sid
            (snd (case stripe_subscriptions_update sid0 params st of
                    (Inl err, st2) \<Rightarrow> (processing_failed, st2)
                  | (Inr _, st2) \<Rightarrow> (received, st2))) = Some s'
          \<and> (s' = s \<or> (sid = sid0 \<and> (\<exists>its st2. update_items (upd_items params) (sub_items s)
                 (st\<lparr>calls := calls st @ [SubscriptionsUpdate]\<rparr>) = Some (its, st2)
               \<and> s' = s\<lparr>sub_items := its,
                    sub_metadata := merge_metadata (sub_metadata s) (upd_metadata params)\<rparr>)))"
proof -
  obtain r st' where upd: "stripe_subscriptions_update sid0 params st = (r, st')"
    by (cases "stripe_subscriptions_update sid0 params st")
  have snd: "snd (case stripe_subscriptions_update sid0 params st of
                    (Inl err, st2) \<Rightarrow> (processing_failed, st2)
                  | (Inr _, st2) \<Rightarrow> (received, st2)) = st'"
    by (simp add: upd split: sum.splits)
  from update_effect [OF upd s] show ?thesis unfolding snd by auto
qed

lemma process_event_effect:
  assumes s: "lookup_subscription sid st = Some s"
  shows "\<exists>s'. lookup_subscription sid (snd (process_event ev st)) = Some s' \<and>
     (s' = s \<or>
      (\<exists>us. sub_metadata s ''promotional_weeks_used'' = Some us \<and>
         (if js_ge (js_add (parseInt us) 1)
               (js_or (parseInt_prop (sub_metadata s ''promotional_weeks_total'')) 4)
          then \<exists>it rest p. sub_items s = it # rest \<and> is_regular_price p \<and>
                 s' = s\<lparr>sub_items := map (\<lambda>x. if item_id x = item_id it
                                               then x\<lparr>item_price := p\<rparr> else x) (it # rest),
                        sub_metadata := (sub_metadata s)
                          (''promotional_weeks_used'' := None,
                           ''promotional_weeks_total'' := None,
                           ''price_tier'' \<mapsto> ''regular'')\<rparr>
          else s' = s\<lparr>sub_metadata := (sub_metadata s)
                     (''promotional_weeks_used'' \<mapsto> toString (js_add (parseInt us) 1))\<rparr>)))"
    (is "\<exists>s'. ?look s' \<and> (s' = s \<or> ?moved s')")
proof -
  let ?st1 = "st\<lparr>calls := calls st @ [SubscriptionsRetrieve]\<rparr>"
  have s1: "lookup_subscription sid ?st1 = Some s" using s by simp
  show ?thesis
  proof (cases "ev_type ev = ''invoice.payment_succeeded'' \<and>
             (\<exists>sid0. obj_subscription (ev_object ev) = Some sid0 \<and> sid0 \<noteq> [])")
    case False
    then show ?thesis using s by (simp add: process_event_quiet)
  next
    case True
    then obtain sid0 where ev: "ev_type ev = ''invoice.payment_succeeded''"
      "obj_subscription (ev_object ev) = Some sid0" "sid0 \<noteq> []" by blast
    show ?thesis
    proof (cases "SubscriptionsRetrieve \<in> set (outage st) \<or> lookup_subscription sid0 st = None")
      case True
      then show ?thesis using s by (simp add: process_event_no_subscription [OF ev])
    next
      case False
      then obtain sub where sub: "SubscriptionsRetrieve \<notin> set (outage st)"
        "lookup_subscription sid0 st = Some sub" by auto
      note unfold = process_event_found [OF ev sub]
      show ?thesis
      proof (cases "sub_metadata sub ''promotional_weeks_used''")
        case None
        then show ?thesis using s by (simp add: unfold)
      next
        case (Some us)
        let ?ge = "js_ge (js_add (parseInt us) 1)
               (js_or (parseInt_prop (sub_metadata sub ''promotional_weeks_total'')) 4)"
        show ?thesis
        proof (cases ?ge)
          case False
          let ?params = "\<lparr>upd_items = [], upd_metadata = (spread (sub_metadata sub))
              (''promotional_weeks_used'' \<mapsto> Some (toString (js_add (parseInt us) 1)))\<rparr>"
          from update_step [OF s1, of sid0 ?params]
          obtain s' where s': "lookup_subscription sid (snd (process_event ev st)) = Some s'"
            and alt: "s' = s \<or> (sid = sid0 \<and> s' = s\<lparr>sub_items := sub_items s,
                 sub_metadata := merge_metadata (sub_metadata s) (upd_metadata ?params)\<rparr>)"
            using Some False by (auto simp: unfold)
          from alt show ?thesis
          proof
            assume "s' = s" with s' show ?thesis by simp
          next
            assume m: "sid = sid0 \<and> s' = s\<lparr>sub_items := sub_items s,
                 sub_metadata := merge_metadata (sub_metadata s) (upd_metadata ?params)\<rparr>"
            then have eq: "sub = s" using sub(2) s by simp
            from m have "s' = s\<lparr>sub_metadata := (sub_metadata s)
                     (''promotional_weeks_used'' \<mapsto> toString (js_add (parseInt us) 1))\<rparr>"
              by (simp add: eq merge_spread_set)
            with s' Some False show ?thesis by (simp add: eq)
          qed
        next
          case True
          show ?thesis
          proof (cases "sub_items sub")
            case Nil
            then show ?thesis using s Some True by (simp add: unfold)
          next
            case (Cons it rest)
            let ?params = "\<lparr>upd_items = [(item_id it, regular_price_data)],
                upd_metadata = (spread (sub_metadata sub))
                  (''promotional_weeks_used'' \<mapsto> None, ''promotional_weeks_total'' \<mapsto> None,
                   ''price_tier'' \<mapsto> Some ''regular'')\<rparr>"
            from update_step [OF s1, of sid0 ?params]
            obtain s' where s': "lookup_subscription sid (snd (process_event ev st)) = Some s'"
              and alt: "s' = s \<or> (sid = sid0 \<and> (\<exists>its st2.
                   update_items [(item_id it, regular_price_data)] (sub_items s)
                     (?st1\<lparr>calls := calls ?st1 @ [SubscriptionsUpdate]\<rparr>) = Some (its, st2)
                 \<and> s' = s\<lparr>sub_items := its,
                     sub_metadata := merge_metadata (sub_metadata s) (upd_metadata ?params)\<rparr>))"
              using Some True Cons by (auto simp: unfold)
            from alt show ?thesis
            proof
              assume "s' = s" with s' show ?thesis by simp
            next
              assume m: "sid = sid0 \<and> (\<exists>its st2.
                   update_items [(item_id it, regular_price_data)] (sub_items s)
                     (?st1\<lparr>calls := calls ?st1 @ [SubscriptionsUpdate]\<rparr>) = Some (its, st2)
                 \<and> s' = s\<lparr>sub_items := its,
                     sub_metadata := merge_metadata (sub_metadata s) (upd_metadata ?params)\<rparr>)"
              then have eq: "sub = s" using sub(2) s by simp
              let ?p = "fst (inline_price regular_price_data
                             (?st1\<lparr>calls := calls ?st1 @ [SubscriptionsUpdate]\<rparr>))"
              have md: "merge_metadata (sub_metadata s) ((spread (sub_metadata s))
                    (''promotional_weeks_used'' \<mapsto> None, ''promotional_weeks_total'' \<mapsto> None,
                     ''price_tier'' \<mapsto> Some ''regular'')) = (sub_metadata s)
                          (''promotional_weeks_used'' := None,
                           ''promotional_weeks_total'' := None,
                           ''price_tier'' \<mapsto> ''regular'')"
                by (rule ext) (simp add: merge_spread_clear)
              have reg: "is_regular_price ?p"
                by (simp add: is_regular_price_def inline_price_def regular_price_data_def)
              from m Cons have "s' = s\<lparr>sub_items := map (\<lambda>x. if item_id x = item_id it
                                               then x\<lparr>item_price := ?p\<rparr> else x) (it # rest),
                        sub_metadata := (sub_metadata s)
                          (''promotional_weeks_used'' := None,
                           ''promotional_weeks_total'' := None,
                           ''price_tier'' \<mapsto> ''regular'')\<rparr>"
                by (auto simp: eq md inline_price_def)
              with s' Some True Cons reg show ?thesis by (auto simp: eq)
            qed
          qed
        qed
      qed
    qed
  qed
qed

section \<open>Sequences of deliveries\<close>

lemma deliver_append: "deliver (xs @ ys) st = deliver ys (deliver xs st)"
  by (induction xs arbitrary: st) simp_all

lemma deliver_outage: "outage (deliver evs st) = outage st"
  by (induction evs arbitrary: st) (simp_all add: process_event_outage)

text \<open>While the incremented counter stays below the total, deliveries only count.\<close>

lemma deliver_counts:
  assumes "lookup_subscription sid st = Some s" "sid \<noteq> []"
    and "parseInt_prop (sub_metadata s ''promotional_weeks_used'') = Num u"
    and "js_or (parseInt_prop (sub_metadata s ''promotional_weeks_total'')) 4 = Num t"
    and "u + int (length evs) < t"
    and "SubscriptionsRetrieve \<notin> set (outage st)" "SubscriptionsUpdate \<notin> set (outage st)"
    and "\<forall>ev \<in> set evs. ev_type ev = ''invoice.payment_succeeded''
           \<and> obj_subscription (ev_object ev) = Some sid"
    and "sub_metadata s ''promotional_weeks_used'' \<noteq> None"
  shows "\<exists>s'. lookup_subscription sid (deliver evs st) = Some s'
           \<and> s'\<lparr>sub_metadata := sub_metadata s\<rparr> = s
           \<and> (\<forall>k. k \<noteq> ''promotional_weeks_used'' \<longrightarrow> sub_metadata s' k = sub_metadata s k)
           \<and> parseInt_prop (sub_metadata s' ''promotional_weeks_used'') = Num (u + int (length evs))
           \<and> sub_metadata s' ''promotional_weeks_used'' \<noteq> None
           \<and> (evs \<noteq> [] \<longrightarrow> sub_metadata s' ''promotional_weeks_used''
                 = Some (toString (Num (u + int (length evs)))))"
  using assms
proof (induction evs arbitrary: st s u)
  case Nil
  then show ?case by simp
next
  case (Cons ev evs)
  from Cons.prems(9) obtain us where us: "sub_metadata s ''promotional_weeks_used'' = Some us"
    by auto
  with Cons.prems(3) have pu: "parseInt us = Num u" by (simp add: parseInt_prop_def)
  have ev: "ev_type ev = ''invoice.payment_succeeded''"
    "obj_subscription (ev_object ev) = Some sid" using Cons.prems(8) by simp_all
  have lt: "\<not> js_ge (js_add (parseInt us) 1)
               (js_or (parseInt_prop (sub_metadata s ''promotional_weeks_total'')) 4)"
    using Cons.prems(4,5) by (simp add: pu js_add_def js_ge_def)
  let ?s1 = "s\<lparr>sub_metadata := (sub_metadata s)
                 (''promotional_weeks_used'' \<mapsto> toString (Num (u + 1)))\<rparr>"
  let ?st1 = "snd (process_event ev st)"
  have look1: "lookup_subscription sid ?st1 = Some ?s1"
    using payment_count(2) [OF ev Cons.prems(2) Cons.prems(1) us lt Cons.prems(6,7), of sid]
    by (simp add: pu js_add_def)
  have out1: "outage ?st1 = outage st" by (rule process_event_outage)
  have "\<exists>s'. lookup_subscription sid (deliver evs ?st1) = Some s'
           \<and> s'\<lparr>sub_metadata := sub_metadata ?s1\<rparr> = ?s1
           \<and> (\<forall>k. k \<noteq> ''promotional_weeks_used'' \<longrightarrow> sub_metadata s' k = sub_metadata ?s1 k)
           \<and> parseInt_prop (sub_metadata s' ''promotional_weeks_used'') = Num (u + 1 + int (length evs))
           \<and> sub_metadata s' ''promotional_weeks_used'' \<noteq> None
           \<and> (evs \<noteq> [] \<longrightarrow> sub_metadata s' ''promotional_weeks_used''
                 = Some (toString (Num (u + 1 + int (length evs)))))"
  proof (rule Cons.IH [OF look1 Cons.prems(2)])
    show "parseInt_prop (sub_metadata ?s1 ''promotional_weeks_used'') = Num (u + 1)"
      by (simp add: parseInt_prop_def parseInt_toString)
    show "js_or (parseInt_prop (sub_metadata ?s1 ''promotional_weeks_total'')) 4 = Num t"
      using Cons.prems(4) by simp
    show "u + 1 + int (length evs) < t" using Cons.prems(5) by simp
    show "SubscriptionsRetrieve \<notin> set (outage ?st1)" "SubscriptionsUpdate \<notin> set (outage ?st1)"
      using Cons.prems(6,7) by (simp_all add: out1)
    show "\<forall>ev \<in> set evs. ev_type ev = ''invoice.payment_succeeded''
           \<and> obj_subscription (ev_object ev) = Some sid" using Cons.prems(8) by simp
    show "sub_metadata ?s1 ''promotional_weeks_used'' \<noteq> None" by simp
  qed
  then obtain s' where s': "lookup_subscription sid (deliver evs ?st1) = Some s'"
    "s'\<lparr>sub_metadata := sub_metadata ?s1\<rparr> = ?s1"
    "\<forall>k. k \<noteq> ''promotional_weeks_used'' \<longrightarrow> sub_metadata s' k = sub_metadata ?s1 k"
    "parseInt_prop (sub_metadata s' ''promotional_weeks_used'') = Num (u + 1 + int (length evs))"
    "sub_metadata s' ''promotional_weeks_used'' \<noteq> None"
    "evs \<noteq> [] \<longrightarrow> sub_metadata s' ''promotional_weeks_used''
                 = Some (toString (Num (u + 1 + int (length evs))))"
    by blast
  have frame: "s'\<lparr>sub_metadata := sub_metadata s\<rparr> = s"
  proof -
    have "s'\<lparr>sub_metadata := sub_metadata s\<rparr>
            = (s'\<lparr>sub_metadata := sub_metadata ?s1\<rparr>)\<lparr>sub_metadata := sub_metadata s\<rparr>" by simp
    also have "\<dots> = ?s1\<lparr>sub_metadata := sub_metadata s\<rparr>" by (simp only: s'(2))
    also have "\<dots> = s" by simp
    finally show ?thesis .
  qed
  have used: "sub_metadata s' ''promotional_weeks_used''
                 = Some (toString (Num (u + int (length (ev # evs)))))"
  proof (cases "evs = []")
    case True
    with s'(1) look1 have "s' = ?s1" by simp
    then show ?thesis using True by simp
  next
    case False
    have "u + 1 + int (length evs) = u + int (length (ev # evs))" by simp
    with s'(6) False show ?thesis by (simp only: not_False_eq_True simp_thms)
  qed
  have n: "u + 1 + int (length evs) = u + int (length (ev # evs))" by simp
  show ?case
    using s'(1,3,5) s'(4) [unfolded n] frame used by simp
qed

lemma small_numbers:
  "parseInt ''0'' = Num 0" "parseInt ''4'' = Num 4" "toString (Num 0) = ''0''"
  by code_simp+

text \<open>
  C1. A promotional subscription whose metadata holds \<open>promotional_weeks_used = 0\<close> and
  \<open>promotional_weeks_total = 4\<close> receives successful-payment events, each processed with
  the platform available. After each of the first three, \<open>promotional_weeks_used\<close> is the
  number of events so far, the total is still there and the items (so the active price) are
  unchanged; after the fourth, both counters are absent and the active price is the regular
  one (2000 aud a week).
\<close>

theorem four_promotional_weeks:
  assumes s: "lookup_subscription sid st = Some s" "sid \<noteq> []"
    and used: "sub_metadata s ''promotional_weeks_used'' = Some ''0''"
    and total: "sub_metadata s ''promotional_weeks_total'' = Some ''4''"
    and items: "sub_items s \<noteq> []"
    and avail: "SubscriptionsRetrieve \<notin> set (outage st)" "SubscriptionsUpdate \<notin> set (outage st)"
    and evs: "\<forall>ev \<in> set evs. ev_type ev = ''invoice.payment_succeeded''
                \<and> obj_subscription (ev_object ev) = Some sid"
  shows "(length evs \<le> 3 \<longrightarrow>
           (\<exists>s'. lookup_subscription sid (deliver evs st) = Some s'
              \<and> sub_metadata s' ''promotional_weeks_used'' = Some (toString (Num (int (length evs))))
              \<and> sub_metadata s' ''promotional_weeks_total'' = Some ''4''
              \<and> sub_items s' = sub_items s))
       \<and> (length evs = 4 \<longrightarrow>
           (\<exists>s' p. lookup_subscription sid (deliver evs st) = Some s'
              \<and> sub_metadata s' ''promotional_weeks_used'' = None
              \<and> sub_metadata s' ''promotional_weeks_total'' = None
              \<and> active_price s' = Some p \<and> is_regular_price p))"
proof -
  have u0: "parseInt_prop (sub_metadata s ''promotional_weeks_used'') = Num 0"
    by (simp add: used parseInt_prop_def small_numbers)
  have t4: "js_or (parseInt_prop (sub_metadata s ''promotional_weeks_total'')) 4 = Num 4"
    by (simp add: total parseInt_prop_def small_numbers js_or_def)
  have present: "sub_metadata s ''promotional_weeks_used'' \<noteq> None" by (simp add: used)
  have counting: "\<exists>s'. lookup_subscription sid (deliver es st) = Some s'
              \<and> sub_metadata s' ''promotional_weeks_used'' = Some (toString (Num (int (length es))))
              \<and> sub_metadata s' ''promotional_weeks_total'' = Some ''4''
              \<and> sub_items s' = sub_items s"
    if le: "length es \<le> 3" and es: "set es \<subseteq> set evs" for es
  proof -
    have "\<exists>s'. lookup_subscription sid (deliver es st) = Some s'
           \<and> s'\<lparr>sub_metadata := sub_metadata s\<rparr> = s
           \<and> (\<forall>k. k \<noteq> ''promotional_weeks_used'' \<longrightarrow> sub_metadata s' k = sub_metadata s k)
           \<and> parseInt_prop (sub_metadata s' ''promotional_weeks_used'') = Num (0 + int (length es))
           \<and> sub_metadata s' ''promotional_weeks_used'' \<noteq> None
           \<and> (es \<noteq> [] \<longrightarrow> sub_metadata s' ''promotional_weeks_used''
                 = Some (toString (Num (0 + int (length es)))))"
      by (rule deliver_counts [OF s u0 t4 _ avail _ present]) (use le es evs in auto)
    then obtain s' where s': "lookup_subscription sid (deliver es st) = Some s'"
      "s'\<lparr>sub_metadata := sub_metadata s\<rparr> = s"
      "\<forall>k. k \<noteq> ''promotional_weeks_used'' \<longrightarrow> sub_metadata s' k = sub_metadata s k"
      "es \<noteq> [] \<longrightarrow> sub_metadata s' ''promotional_weeks_used''
                 = Some (toString (Num (0 + int (length es))))"
      by blast
    have "sub_items (s'\<lparr>sub_metadata := sub_metadata s\<rparr>) = sub_items s" by (simp only: s'(2))
    then have its: "sub_items s' = sub_items s" by simp
    have tot: "sub_metadata s' ''promotional_weeks_total'' = Some ''4''"
      using s'(3) total by simp
    have "sub_metadata s' ''promotional_weeks_used'' = Some (toString (Num (int (length es))))"
    proof (cases "es = []")
      case True
      with s'(1) s(1) used show ?thesis by (simp add: small_numbers)
    next
      case False
      with s'(4) show ?thesis by simp
    qed
    with s'(1) its tot show ?thesis by blast
  qed
  have first: "length evs \<le> 3 \<longrightarrow>
           (\<exists>s'. lookup_subscription sid (deliver evs st) = Some s'
              \<and> sub_metadata s' ''promotional_weeks_used'' = Some (toString (Num (int (length evs))))
              \<and> sub_metadata s' ''promotional_weeks_total'' = Some ''4''
              \<and> sub_items s' = sub_items s)"
    using counting [of evs] by simp
  have fourth: "\<exists>s' p. lookup_subscription sid (deliver evs st) = Some s'
              \<and> sub_metadata s' ''promotional_weeks_used'' = None
              \<and> sub_metadata s' ''promotional_weeks_total'' = None
              \<and> active_price s' = Some p \<and> is_regular_price p"
    if len: "length evs = 4"
  proof -
    from len have ne: "evs \<noteq> []" by auto
    let ?es = "butlast evs" and ?e = "last evs"
    have split: "evs = ?es @ [?e]" using ne by simp
    have "length ?es \<le> 3" "set ?es \<subseteq> set evs" using len by (auto dest: in_set_butlastD)
    from counting [OF this] obtain s3 where s3:
      "lookup_subscription sid (deliver ?es st) = Some s3"
      "sub_metadata s3 ''promotional_weeks_used'' = Some (toString (Num 3))"
      "sub_metadata s3 ''promotional_weeks_total'' = Some ''4''"
      "sub_items s3 = sub_items s"
      using len by auto
    from items obtain it rest where its: "sub_items s3 = it # rest"
      using s3(4) by (cases "sub_items s") auto
    have e: "ev_type ?e = ''invoice.payment_succeeded''"
      "obj_subscription (ev_object ?e) = Some sid"
      using evs ne by simp_all
    have ge: "js_ge (js_add (parseInt (toString (Num 3))) 1)
               (js_or (parseInt_prop (sub_metadata s3 ''promotional_weeks_total'')) 4)"
      by (simp add: parseInt_toString s3(3) parseInt_prop_def small_numbers js_or_def
          js_add_def js_ge_def)
    have av: "SubscriptionsRetrieve \<notin> set (outage (deliver ?es st))"
      "SubscriptionsUpdate \<notin> set (outage (deliver ?es st))"
      using avail by (simp_all add: deliver_outage)
    from payment_switch(2) [OF e s(2) s3(1) s3(2) ge its av]
    obtain p where p: "is_regular_price p"
      "lookup_subscription sid (snd (process_event ?e (deliver ?es st))) =
         Some (s3\<lparr>sub_items := map (\<lambda>x. if item_id x = item_id it
                                         then x\<lparr>item_price := p\<rparr> else x) (it # rest),
                  sub_metadata := (sub_metadata s3)
                     (''promotional_weeks_used'' := None, ''promotional_weeks_total'' := None,
                      ''price_tier'' \<mapsto> ''regular'')\<rparr>)"
      by auto
    have "deliver evs st = snd (process_event ?e (deliver ?es st))"
      by (subst split) (simp add: deliver_append del: append_butlast_last_id)
    with p show ?thesis by (simp add: active_price_def)
  qed
  from first fourth show ?thesis by blast
qed

section \<open>Redelivery\<close>

lemma example_lookup:
  "lookup_subscription ''sub_1'' example_platform = Some example_subscription"
  by (simp add: example_platform_def example_subscription_def lookup_subscription_def)

lemma example_facts:
  "sub_metadata example_subscription ''promotional_weeks_used'' = Some ''0''"
  "sub_metadata example_subscription ''promotional_weeks_total'' = Some ''4''"
  "outage example_platform = []"
  by (simp_all add: example_platform_def example_subscription_def)

text \<open>
  C2. The claim fails: the same event delivered twice to the example subscription leaves
  the counter at 2, not at the 1 reached after the first delivery.
\<close>

theorem redelivery_counts_again:
  "subscription_metadata ''sub_1'' ''promotional_weeks_used''
     (deliver [payment_succeeded ''in_1'' ''sub_1''] example_platform) = Some ''1''
   \<and> subscription_metadata ''sub_1'' ''promotional_weeks_used''
       (deliver [payment_succeeded ''in_1'' ''sub_1'', payment_succeeded ''in_1'' ''sub_1'']
          example_platform) = Some ''2''"
proof -
  have n: "toString (Num 1) = ''1''" "toString (Num 2) = ''2''" by code_simp+
  have one: "\<exists>s'. lookup_subscription ''sub_1''
                (deliver [payment_succeeded ''in_1'' ''sub_1''] example_platform) = Some s'
           \<and> s'\<lparr>sub_metadata := sub_metadata example_subscription\<rparr> = example_subscription
           \<and> (\<forall>k. k \<noteq> ''promotional_weeks_used'' \<longrightarrow>
                 sub_metadata s' k = sub_metadata example_subscription k)
           \<and> parseInt_prop (sub_metadata s' ''promotional_weeks_used'')
               = Num (0 + int (length [payment_succeeded ''in_1'' ''sub_1'']))
           \<and> sub_metadata s' ''promotional_weeks_used'' \<noteq> None
           \<and> ([payment_succeeded ''in_1'' ''sub_1''] \<noteq> [] \<longrightarrow>
                sub_metadata s' ''promotional_weeks_used''
                 = Some (toString (Num (0 + int (length [payment_succeeded ''in_1'' ''sub_1''])))))"
    by (rule deliver_counts [OF example_lookup, where t = 4])
       (simp_all add: example_facts parseInt_prop_def small_numbers js_or_def
          payment_succeeded_def)
  have two: "\<exists>s'. lookup_subscription ''sub_1''
                (deliver [payment_succeeded ''in_1'' ''sub_1'', payment_succeeded ''in_1'' ''sub_1'']
                   example_platform) = Some s'
           \<and> s'\<lparr>sub_metadata := sub_metadata example_subscription\<rparr> = example_subscription
           \<and> (\<forall>k. k \<noteq> ''promotional_weeks_used'' \<longrightarrow>
                 sub_metadata s' k = sub_metadata example_subscription k)
           \<and> parseInt_prop (sub_metadata s' ''promotional_weeks_used'')
               = Num (0 + int (length [payment_succeeded ''in_1'' ''sub_1'',
                                         payment_succeeded ''in_1'' ''sub_1'']))
           \<and> sub_metadata s' ''promotional_weeks_used'' \<noteq> None
           \<and> ([payment_succeeded ''in_1'' ''sub_1'', payment_succeeded ''in_1'' ''sub_1''] \<noteq> [] \<longrightarrow>
                sub_metadata s' ''promotional_weeks_used''
                 = Some (toString (Num (0 + int (length [payment_succeeded ''in_1'' ''sub_1'',
                                         payment_succeeded ''in_1'' ''sub_1''])))))"
    by (rule deliver_counts [OF example_lookup, where t = 4])
       (simp_all add: example_facts parseInt_prop_def small_numbers js_or_def
          payment_succeeded_def)
  from one two show ?thesis
    by (auto simp: subscription_metadata_def n)
qed

text \<open>
  C2, amended. The processor keeps no de-duplication key and does not read the invoice
  identifier: every delivery of a successful-payment event for a promotional subscription
  counts. With \<open>used = u\<close> and \<open>u + 2 < total\<close>, the first delivery of an event leaves
  \<open>u + 1\<close>, a second delivery of the same event leaves \<open>u + 2\<close>; a delivery changes no
  metadata key but the counter, and an event with another invoice identifier is processed
  the same way.
\<close>

theorem redelivery_advances_counter:
  assumes s: "lookup_subscription sid st = Some s" "sid \<noteq> []"
    and used: "sub_metadata s ''promotional_weeks_used'' = Some us" "parseInt us = Num u" "0 \<le> u"
    and total: "js_or (parseInt_prop (sub_metadata s ''promotional_weeks_total'')) 4 = Num t"
      "u + 2 < t" "t \<le> MAX_SAFE_INTEGER"
    and avail: "SubscriptionsRetrieve \<notin> set (outage st)" "SubscriptionsUpdate \<notin> set (outage st)"
    and ev: "ev_type ev = ''invoice.payment_succeeded''"
      "obj_subscription (ev_object ev) = Some sid"
  shows "subscription_metadata sid ''promotional_weeks_used'' (deliver [ev] st)
           = Some (toString (Num (u + 1)))
       \<and> subscription_metadata sid ''promotional_weeks_used'' (deliver [ev, ev] st)
           = Some (toString (Num (u + 2)))
       \<and> (\<forall>k. k \<noteq> ''promotional_weeks_used'' \<longrightarrow>
             subscription_metadata sid k (deliver [ev, ev] st) = sub_metadata s k)
       \<and> (\<forall>i. process_event (ev\<lparr>ev_object := (ev_object ev)\<lparr>obj_id := i\<rparr>\<rparr>) st
               = process_event ev st)"
proof -
  have pu: "parseInt_prop (sub_metadata s ''promotional_weeks_used'') = Num u"
    by (simp add: used parseInt_prop_def)
  have present: "sub_metadata s ''promotional_weeks_used'' \<noteq> None" by (simp add: used)
  have run: "\<exists>s'. lookup_subscription sid (deliver es st) = Some s'
           \<and> s'\<lparr>sub_metadata := sub_metadata s\<rparr> = s
           \<and> (\<forall>k. k \<noteq> ''promotional_weeks_used'' \<longrightarrow> sub_metadata s' k = sub_metadata s k)
           \<and> parseInt_prop (sub_metadata s' ''promotional_weeks_used'') = Num (u + int (length es))
           \<and> sub_metadata s' ''promotional_weeks_used'' \<noteq> None
           \<and> (es \<noteq> [] \<longrightarrow> sub_metadata s' ''promotional_weeks_used''
                 = Some (toString (Num (u + int (length es)))))"
    if "es = [ev] \<or> es = [ev, ev]" for es
    by (rule deliver_counts [OF s pu total(1) _ avail _ present]) (use that total(2) ev in auto)
  have a: "subscription_metadata sid ''promotional_weeks_used'' (deliver [ev] st)
           = Some (toString (Num (u + 1)))"
    using run [of "[ev]"] by (auto simp: subscription_metadata_def)
  have b: "subscription_metadata sid ''promotional_weeks_used'' (deliver [ev, ev] st)
           = Some (toString (Num (u + 2)))"
    using run [of "[ev, ev]"] by (auto simp: subscription_metadata_def)
  have c: "\<forall>k. k \<noteq> ''promotional_weeks_used'' \<longrightarrow>
             subscription_metadata sid k (deliver [ev, ev] st) = sub_metadata s k"
    using run [of "[ev, ev]"] by (auto simp: subscription_metadata_def)
  have d: "\<forall>i. process_event (ev\<lparr>ev_object := (ev_object ev)\<lparr>obj_id := i\<rparr>\<rparr>) st
               = process_event ev st"
    by (simp add: process_event_def)
  from a b c d show ?thesis by blast
qed

theorem redelivery_advances_counter_witness:
  "subscription_metadata ''sub_1'' ''promotional_weeks_used''
     (deliver [payment_succeeded ''in_1'' ''sub_1'', payment_succeeded ''in_1'' ''sub_1'']
        example_platform) = Some (toString (Num 2))
   \<and> subscription_metadata ''sub_1'' ''plan_type''
       (deliver [payment_succeeded ''in_1'' ''sub_1'', payment_succeeded ''in_1'' ''sub_1'']
          example_platform) = Some ''weekly-meal-plan''"
  using redelivery_advances_counter [of "''sub_1''" example_platform example_subscription
      "''0''" 0 4 "payment_succeeded ''in_1'' ''sub_1''"]
  by (simp add: example_lookup example_facts small_numbers parseInt_prop_def js_or_def
      MAX_SAFE_INTEGER_def payment_succeeded_def)
     (simp add: example_subscription_def)

section \<open>The counter invariant\<close>

lemma promotional_active_iff:
  "promotional_active s \<longleftrightarrow>
     (\<exists>us ts u t. sub_metadata s ''promotional_weeks_used'' = Some us
        \<and> sub_metadata s ''promotional_weeks_total'' = Some ts
        \<and> parseInt us = Num u \<and> parseInt ts = Num t
        \<and> 0 \<le> u \<and> u < t \<and> t \<le> MAX_SAFE_INTEGER)"
  by (auto simp: promotional_active_def split: option.splits jsnum.splits)

lemma tier_invariant: "promotional_active s \<or> regular s \<Longrightarrow> counter_invariant s"
  by (auto simp: promotional_active_iff regular_def counter_invariant_def parseInt_prop_def)

lemma tier_step:
  assumes s: "lookup_subscription sid st = Some s"
    and tier: "promotional_active s \<or> regular s"
  shows "\<exists>s'. lookup_subscription sid (snd (process_event ev st)) = Some s'
           \<and> (promotional_active s' \<or> regular s') \<and> (regular s \<longrightarrow> regular s')"
proof -
  from process_event_effect [OF s, of ev] obtain s' where
    look: "lookup_subscription sid (snd (process_event ev st)) = Some s'"
    and alt: "s' = s \<or>
      (\<exists>us. sub_metadata s ''promotional_weeks_used'' = Some us \<and>
         (if js_ge (js_add (parseInt us) 1)
               (js_or (parseInt_prop (sub_metadata s ''promotional_weeks_total'')) 4)
          then \<exists>it rest p. sub_items s = it # rest \<and> is_regular_price p \<and>
                 s' = s\<lparr>sub_items := map (\<lambda>x. if item_id x = item_id it
                                               then x\<lparr>item_price := p\<rparr> else x) (it # rest),
                        sub_metadata := (sub_metadata s)
                          (''promotional_weeks_used'' := None,
                           ''promotional_weeks_total'' := None,
                           ''price_tier'' \<mapsto> ''regular'')\<rparr>
          else s' = s\<lparr>sub_metadata := (sub_metadata s)
                     (''promotional_weeks_used'' \<mapsto> toString (js_add (parseInt us) 1))\<rparr>))"
    by blast
  from alt have "(promotional_active s' \<or> regular s') \<and> (regular s \<longrightarrow> regular s')"
  proof
    assume "s' = s"
    with tier show ?thesis by simp
  next
    assume "\<exists>us. sub_metadata s ''promotional_weeks_used'' = Some us \<and>
         (if js_ge (js_add (parseInt us) 1)
               (js_or (parseInt_prop (sub_metadata s ''promotional_weeks_total'')) 4)
          then \<exists>it rest p. sub_items s = it # rest \<and> is_regular_price p \<and>
                 s' = s\<lparr>sub_items := map (\<lambda>x. if item_id x = item_id it
                                               then x\<lparr>item_price := p\<rparr> else x) (it # rest),
                        sub_metadata := (sub_metadata s)
                          (''promotional_weeks_used'' := None,
                           ''promotional_weeks_total'' := None,
                           ''price_tier'' \<mapsto> ''regular'')\<rparr>
          else s' = s\<lparr>sub_metadata := (sub_metadata s)
                     (''promotional_weeks_used'' \<mapsto> toString (js_add (parseInt us) 1))\<rparr>)"
    then obtain us where us: "sub_metadata s ''promotional_weeks_used'' = Some us"
      and moved: "if js_ge (js_add (parseInt us) 1)
               (js_or (parseInt_prop (sub_metadata s ''promotional_weeks_total'')) 4)
          then \<exists>it rest p. sub_items s = it # rest \<and> is_regular_price p \<and>
                 s' = s\<lparr>sub_items := map (\<lambda>x. if item_id x = item_id it
                                               then x\<lparr>item_price := p\<rparr> else x) (it # rest),
                        sub_metadata := (sub_metadata s)
                          (''promotional_weeks_used'' := None,
                           ''promotional_weeks_total'' := None,
                           ''price_tier'' \<mapsto> ''regular'')\<rparr>
          else s' = s\<lparr>sub_metadata := (sub_metadata s)
                     (''promotional_weeks_used'' \<mapsto> toString (js_add (parseInt us) 1))\<rparr>"
      by blast
    from us have not_regular: "\<not> regular s" by (simp add: regular_def)
    with tier have "promotional_active s" by simp
    with us obtain ts u t where ts: "sub_metadata s ''promotional_weeks_total'' = Some ts"
      and p: "parseInt us = Num u" "parseInt ts = Num t"
      and b: "0 \<le> u" "u < t" "t \<le> MAX_SAFE_INTEGER"
      by (auto simp: promotional_active_iff)
    have tot: "js_or (parseInt_prop (sub_metadata s ''promotional_weeks_total'')) 4 = Num t"
      using b by (simp add: ts p parseInt_prop_def js_or_def)
    have ge: "js_ge (js_add (parseInt us) 1)
               (js_or (parseInt_prop (sub_metadata s ''promotional_weeks_total'')) 4)
              \<longleftrightarrow> t \<le> u + 1"
      by (simp add: tot p js_add_def js_ge_def)
    show ?thesis
    proof (cases "t \<le> u + 1")
      case True
      with moved ge obtain it rest pr where sw: "sub_items s = it # rest" "is_regular_price pr"
        "s' = s\<lparr>sub_items := map (\<lambda>x. if item_id x = item_id it
                                               then x\<lparr>item_price := pr\<rparr> else x) (it # rest),
                        sub_metadata := (sub_metadata s)
                          (''promotional_weeks_used'' := None,
                           ''promotional_weeks_total'' := None,
                           ''price_tier'' \<mapsto> ''regular'')\<rparr>"
        by auto
      then have "regular s'" by (simp add: regular_def active_price_def)
      then show ?thesis using not_regular by simp
    next
      case False
      with moved ge have s': "s' = s\<lparr>sub_metadata := (sub_metadata s)
                     (''promotional_weeks_used'' \<mapsto> toString (Num (u + 1)))\<rparr>"
        by (simp add: p js_add_def)
      have "promotional_active s'"
        unfolding promotional_active_iff
        using False b ts p(2) by (simp add: s' parseInt_toString)
      then show ?thesis using not_regular by simp
    qed
  qed
  with look show ?thesis by blast
qed

lemma tier_deliver:
  assumes "lookup_subscription sid st = Some s" "promotional_active s \<or> regular s"
  shows "\<exists>s'. lookup_subscription sid (deliver evs st) = Some s'
           \<and> (promotional_active s' \<or> regular s') \<and> (regular s \<longrightarrow> regular s')"
  using assms
proof (induction evs arbitrary: st s)
  case Nil
  then show ?case by simp
next
  case (Cons ev evs)
  from tier_step [OF Cons.prems, of ev] obtain s1 where
    s1: "lookup_subscription sid (snd (process_event ev st)) = Some s1"
      "promotional_active s1 \<or> regular s1" "regular s \<longrightarrow> regular s1"
    by blast
  from Cons.IH [OF s1(1,2)] s1(3) show ?case by auto
qed

text \<open>
  C3. A subscription starts promotional-active (both counters present,
  \<open>0 <= weeks_used < weeks_total\<close>) or regular. After every sequence of deliveries, of any
  events and whether or not the platform calls succeed, the counter invariant
  \<open>0 <= weeks_used <= weeks_total\<close> holds and the subscription is again promotional-active
  or regular: once the counter has reached the total, the counters are absent and the
  active price is the regular one. From regular, every further sequence of deliveries
  leaves it regular.
\<close>

theorem promotional_counter_invariant:
  assumes "lookup_subscription sid st = Some s" and "promotional_active s \<or> regular s"
  shows "\<exists>s1 s2. lookup_subscription sid (deliver evs1 st) = Some s1
           \<and> lookup_subscription sid (deliver (evs1 @ evs2) st) = Some s2
           \<and> counter_invariant s1 \<and> (promotional_active s1 \<or> regular s1)
           \<and> (regular s1 \<longrightarrow> regular s2)"
proof -
  from tier_deliver [OF assms, of evs1] obtain s1 where
    s1: "lookup_subscription sid (deliver evs1 st) = Some s1"
      "promotional_active s1 \<or> regular s1" by blast
  from tier_deliver [OF s1, of evs2] obtain s2 where
    s2: "lookup_subscription sid (deliver evs2 (deliver evs1 st)) = Some s2"
      "regular s1 \<longrightarrow> regular s2" by blast
  from s1 s2 tier_invariant [OF s1(2)] show ?thesis
    by (auto simp: deliver_append)
qed

theorem promotional_counter_invariant_witness:
  "\<exists>s1 s2. lookup_subscription ''sub_1''
               (deliver [payment_succeeded ''in_1'' ''sub_1''] example_platform) = Some s1
     \<and> lookup_subscription ''sub_1''
         (deliver ([payment_succeeded ''in_1'' ''sub_1''] @ [payment_succeeded ''in_2'' ''sub_1''])
            example_platform) = Some s2
     \<and> counter_invariant s1 \<and> (promotional_active s1 \<or> regular s1)
     \<and> (regular s1 \<longrightarrow> regular s2)"
  using promotional_counter_invariant [of "''sub_1''" example_platform example_subscription
      "[payment_succeeded ''in_1'' ''sub_1'']" "[payment_succeeded ''in_2'' ''sub_1'']"]
  by (simp add: example_lookup example_facts promotional_active_def small_numbers
      MAX_SAFE_INTEGER_def)

lemma last_week_lookup:
  "lookup_subscription ''sub_1'' last_week_platform = Some last_week_subscription"
  by (simp add: last_week_platform_def last_week_subscription_def example_platform_def
      example_subscription_def lookup_subscription_def)

lemma last_week_facts:
  "sub_metadata last_week_subscription ''promotional_weeks_used'' = Some ''3''"
  "sub_metadata last_week_subscription ''promotional_weeks_total'' = Some ''4''"
  "sub_metadata last_week_subscription ''regular_price_amount'' = Some ''2500''"
  "sub_metadata last_week_subscription ''plan_type'' = Some ''weekly-meal-plan''"
  "sub_items last_week_subscription \<noteq> []"
  "outage last_week_platform = []"
  by (simp_all add: last_week_platform_def last_week_subscription_def example_platform_def
      example_subscription_def)

lemma last_week_switches:
  "js_ge (js_add (parseInt ''3'') 1) (js_or (parseInt_prop (Some ''4'')) 4)"
  by code_simp

lemma last_week_numbers:
  "parseInt ''3'' = Num 3" "js_or (parseInt_prop (Some ''4'')) 4 = Num 4"
  by code_simp+

text \<open>
  C4, amended. When the processor switches a subscription to regular pricing, the new
  price is the handler's own constant, 2000 aud a week: \<open>regular_price_amount\<close> is not
  read. \<open>promotional_weeks_used\<close> and \<open>promotional_weeks_total\<close> are cleared,
  \<open>price_tier\<close> is set to \<open>regular\<close>, and every other metadata key, \<open>plan_type\<close> and
  \<open>regular_price_amount\<close> among them, keeps its value. The switch is the one the handler
  takes: the counter \<open>u\<close> and the total \<open>t\<close> it reads lie within the integers a double
  holds exactly, and \<open>u + 1 >= t\<close>.
\<close>

theorem switch_to_regular_pricing:
  assumes ev: "ev_type ev = ''invoice.payment_succeeded''"
      "obj_subscription (ev_object ev) = Some sid" "sid \<noteq> []"
    and s: "lookup_subscription sid st = Some s"
    and us: "sub_metadata s ''promotional_weeks_used'' = Some us" "parseInt us = Num u"
    and total: "js_or (parseInt_prop (sub_metadata s ''promotional_weeks_total'')) 4 = Num t"
    and safe: "\<bar>u\<bar> \<le> MAX_SAFE_INTEGER" "\<bar>t\<bar> \<le> MAX_SAFE_INTEGER"
    and reached: "t \<le> u + 1"
    and items: "sub_items s \<noteq> []"
    and avail: "SubscriptionsRetrieve \<notin> set (outage st)" "SubscriptionsUpdate \<notin> set (outage st)"
  shows "\<exists>s' p. lookup_subscription sid (snd (process_event ev st)) = Some s'
           \<and> active_price s' = Some p
           \<and> unit_amount p = 2000 \<and> currency p = ''aud'' \<and> recurring_interval p = Some ''week''
           \<and> sub_metadata s' ''promotional_weeks_used'' = None
           \<and> sub_metadata s' ''promotional_weeks_total'' = None
           \<and> sub_metadata s' ''price_tier'' = Some ''regular''
           \<and> sub_metadata s' ''plan_type'' = sub_metadata s ''plan_type''
           \<and> sub_metadata s' ''regular_price_amount'' = sub_metadata s ''regular_price_amount''
           \<and> (\<forall>k. k \<notin> {''promotional_weeks_used'', ''promotional_weeks_total'', ''price_tier''}
                 \<longrightarrow> sub_metadata s' k = sub_metadata s k)"
proof -
  from items obtain it rest where its: "sub_items s = it # rest"
    by (cases "sub_items s") auto
  have ge: "js_ge (js_add (parseInt us) 1)
              (js_or (parseInt_prop (sub_metadata s ''promotional_weeks_total'')) 4)"
    using reached by (simp add: us(2) total js_add_def js_ge_def)
  from payment_switch(2) [OF ev s us(1) ge its avail]
  obtain p where p: "is_regular_price p"
    "lookup_subscription sid (snd (process_event ev st)) =
       Some (s\<lparr>sub_items := map (\<lambda>x. if item_id x = item_id it
                                      then x\<lparr>item_price := p\<rparr> else x) (it # rest),
               sub_metadata := (sub_metadata s)
                 (''promotional_weeks_used'' := None, ''promotional_weeks_total'' := None,
                  ''price_tier'' \<mapsto> ''regular'')\<rparr>)"
    by auto
  then show ?thesis by (simp add: active_price_def is_regular_price_def)
qed

theorem switch_to_regular_pricing_witness:
  "\<exists>s' p. lookup_subscription ''sub_1''
             (snd (process_event (payment_succeeded ''in_4'' ''sub_1'') last_week_platform)) = Some s'
     \<and> active_price s' = Some p \<and> unit_amount p = 2000
     \<and> sub_metadata s' ''promotional_weeks_used'' = None
     \<and> sub_metadata s' ''plan_type'' = Some ''weekly-meal-plan''
     \<and> sub_metadata s' ''regular_price_amount'' = Some ''2500''"
  using switch_to_regular_pricing [where ev = "payment_succeeded ''in_4'' ''sub_1''"
      and sid = "''sub_1''" and st = last_week_platform and s = last_week_subscription
      and us = "''3''" and u = 3 and t = 4]
  by (simp add: last_week_lookup last_week_facts last_week_numbers MAX_SAFE_INTEGER_def
        payment_succeeded_def)
     blast

text \<open>
  C4. The claim fails: the subscription stores \<open>regular_price_amount = 2500\<close>, and the
  switch gives it a price of 2000.
\<close>

theorem regular_amount_not_from_metadata:
  "active_unit_amount ''sub_1''
     (deliver [payment_succeeded ''in_4'' ''sub_1''] last_week_platform) = Some 2000
   \<and> subscription_metadata ''sub_1'' ''regular_price_amount''
       (deliver [payment_succeeded ''in_4'' ''sub_1''] last_week_platform) = Some ''2500''
   \<and> parseInt ''2500'' = Num 2500"
proof -
  have ev: "ev_type (payment_succeeded ''in_4'' ''sub_1'') = ''invoice.payment_succeeded''"
    "obj_subscription (ev_object (payment_succeeded ''in_4'' ''sub_1'')) = Some ''sub_1''"
    "''sub_1'' \<noteq> []"
    by (simp_all add: payment_succeeded_def)
  have ge: "js_ge (js_add (parseInt ''3'') 1)
      (js_or (parseInt_prop (sub_metadata last_week_subscription ''promotional_weeks_total'')) 4)"
    by (simp add: last_week_facts last_week_switches)
  obtain it rest where its: "sub_items last_week_subscription = it # rest"
    using last_week_facts(5) by (cases "sub_items last_week_subscription") auto
  from payment_switch(2) [OF ev last_week_lookup last_week_facts(1) ge its]
  obtain p where p: "is_regular_price p"
    "lookup_subscription ''sub_1''
       (snd (process_event (payment_succeeded ''in_4'' ''sub_1'') last_week_platform)) =
       Some (last_week_subscription\<lparr>sub_items := map (\<lambda>x. if item_id x = item_id it
                                      then x\<lparr>item_price := p\<rparr> else x) (it # rest),
               sub_metadata := (sub_metadata last_week_subscription)
                 (''promotional_weeks_used'' := None, ''promotional_weeks_total'' := None,
                  ''price_tier'' \<mapsto> ''regular'')\<rparr>)"
    by (auto simp: last_week_facts)
  have n: "parseInt ''2500'' = Num 2500" by code_simp
  from p n show ?thesis
    by (simp add: active_unit_amount_def subscription_metadata_def active_price_def
        is_regular_price_def last_week_facts)
qed

section \<open>Requests rejected before any platform call\<close>

text \<open>
  C6. A POST to the webhook whose signature header is missing or empty, or whose signature
  does not verify against the signing secret, is answered with 400 and the platform is
  left exactly as it was: no call is logged, so no retrieve or update was issued.
\<close>

theorem unverified_webhook_rejected:
  assumes "httpMethod event = ''POST''"
    and "\<not> truthy_text (map_of (headers event) ''stripe-signature'')
         \<or> (\<forall>payload header secret.
               body event = Some payload
               \<and> map_of (headers event) ''stripe-signature'' = Some header
               \<and> STRIPE_WEBHOOK_SECRET env = Some secret
               \<longrightarrow> \<not> verifyHeader lib payload header secret)"
  shows "statusCode (fst (webhook_handler lib env event st)) = 400
       \<and> snd (webhook_handler lib env event st) = st"
proof -
  have "\<exists>message. constructEvent lib (body event) (map_of (headers event) ''stripe-signature'')
          (STRIPE_WEBHOOK_SECRET env) = Inl message"
    using assms(2)
    by (auto simp: constructEvent_def split: option.splits)
  then show ?thesis using assms(1)
    by (auto simp: webhook_handler_def Let_def)
qed

theorem unverified_webhook_rejected_witness:
  "statusCode (fst (webhook_handler example_webhooks example_environment
       \<lparr>httpMethod = ''POST'', headers = [(''stripe-signature'', ''forged'')],
        body = Some ''in_9''\<rparr> example_platform)) = 400
   \<and> snd (webhook_handler example_webhooks example_environment
       \<lparr>httpMethod = ''POST'', headers = [(''stripe-signature'', ''forged'')],
        body = Some ''in_9''\<rparr> example_platform) = example_platform"
  using unverified_webhook_rejected [of
      "\<lparr>httpMethod = ''POST'', headers = [(''stripe-signature'', ''forged'')],
        body = Some ''in_9''\<rparr>" example_environment example_webhooks example_platform]
  by (simp add: example_webhooks_def example_environment_def)

text \<open>
  C7. A POST to the checkout endpoint, with the secret key configured and a body that parses
  to a JSON object in which \<open>customer_email\<close>, \<open>customer_name\<close> or \<open>payment_method_id\<close>
  is missing or falsy (empty), is answered with 400 and the platform is left exactly as it
  was: no call is logged.
\<close>

theorem missing_fields_rejected:
  assumes "httpMethod event = ''POST''" and "truthy_text (STRIPE_SECRET_KEY env)"
    and "body event = Some b" and "JSON_parse b = Some (JObj props)"
    and "\<not> truthy (map_of props ''customer_email'')
         \<or> \<not> truthy (map_of props ''customer_name'')
         \<or> \<not> truthy (map_of props ''payment_method_id'')"
  shows "statusCode (fst (create_subscription_handler JSON_parse env event st)) = 400
       \<and> snd (create_subscription_handler JSON_parse env event st) = st"
proof -
  have "\<exists>early. validate_request JSON_parse env event = Inl early \<and> statusCode early = 400"
    using assms
    by (auto simp: validate_request_def destructure_def reply_def truthy_text_def)
  then show ?thesis
    by (auto simp: create_subscription_handler_def)
qed

theorem missing_fields_rejected_witness:
  "statusCode (fst (create_subscription_handler example_parse example_environment
       \<lparr>httpMethod = ''POST'', headers = [], body = Some ''{\"customer_email\":\"a@x.com\"}''\<rparr>
       example_platform)) = 400
   \<and> snd (create_subscription_handler example_parse example_environment
       \<lparr>httpMethod = ''POST'', headers = [], body = Some ''{\"customer_email\":\"a@x.com\"}''\<rparr>
       example_platform) = example_platform"
  using missing_fields_rejected [of
      "\<lparr>httpMethod = ''POST'', headers = [], body = Some ''{\"customer_email\":\"a@x.com\"}''\<rparr>"
      example_environment "''{\"customer_email\":\"a@x.com\"}''" example_parse
      "[(''customer_email'', JStr ''a@x.com'')]" example_platform]
  by (simp add: example_environment_def example_parse_def truthy_text_def truthy_def)

text \<open>
  C8. The claim fails: with the signing secret absent the webhook answers 400, not 500,
  and the checkout endpoint, which never reads the signing secret, answers 200.
\<close>

theorem missing_signing_secret_not_500:
  "statusCode (fst (webhook_handler example_webhooks
       \<lparr>STRIPE_SECRET_KEY = Some ''sk_test_1'', STRIPE_WEBHOOK_SECRET = None\<rparr>
       \<lparr>httpMethod = ''POST'', headers = [(''stripe-signature'', ''whsec_1in_1'')],
        body = Some ''in_1''\<rparr> example_platform)) = 400
   \<and> statusCode (fst (create_subscription_handler example_parse
       \<lparr>STRIPE_SECRET_KEY = Some ''sk_test_1'', STRIPE_WEBHOOK_SECRET = None\<rparr>
       checkout_request example_platform)) = 200"
proof -
  have a: "statusCode (fst (webhook_handler example_webhooks
       \<lparr>STRIPE_SECRET_KEY = Some ''sk_test_1'', STRIPE_WEBHOOK_SECRET = None\<rparr>
       \<lparr>httpMethod = ''POST'', headers = [(''stripe-signature'', ''whsec_1in_1'')],
        body = Some ''in_1''\<rparr> example_platform)) = 400"
    by (simp add: webhook_handler_def constructEvent_def truthy_text_def)
  have b: "statusCode (fst (create_subscription_handler example_parse
       \<lparr>STRIPE_SECRET_KEY = Some ''sk_test_1'', STRIPE_WEBHOOK_SECRET = None\<rparr>
       checkout_request example_platform)) = 200"
    by (simp add: create_subscription_handler_def validate_request_def checkout_request_def
        example_parse_def truthy_text_def truthy_def destructure_def resolve_customer_def
        stripe_customers_list_def stripe_paymentMethods_attach_def stripe_customers_update_def
        stripe_products_list_def stripe_products_create_def stripe_prices_create_def
        create_and_reply_def stripe_subscriptions_create_def subscription_created_def
        reply_def api_def scalar_text_def example_platform_def Let_def)
  from a b show ?thesis by simp
qed

text \<open>
  C8, amended. On a POST, the checkout endpoint answers 500 before any platform call when
  the platform secret key is absent or empty. The webhook endpoint has no configuration
  check: with the signing secret absent the signature check throws and the answer is 400,
  again before any platform call. The checkout endpoint does not read the signing secret.
\<close>

theorem missing_configuration:
  assumes "httpMethod event = ''POST''"
  shows "(\<not> truthy_text (STRIPE_SECRET_KEY env) \<longrightarrow>
            statusCode (fst (create_subscription_handler JSON_parse env event st)) = 500
            \<and> snd (create_subscription_handler JSON_parse env event st) = st)
       \<and> (STRIPE_WEBHOOK_SECRET env = None \<longrightarrow>
            statusCode (fst (webhook_handler lib env event st)) = 400
            \<and> snd (webhook_handler lib env event st) = st)
       \<and> create_subscription_handler JSON_parse (env\<lparr>STRIPE_WEBHOOK_SECRET := w\<rparr>) event st
           = create_subscription_handler JSON_parse env event st"
proof -
  have a: "\<not> truthy_text (STRIPE_SECRET_KEY env) \<longrightarrow>
            statusCode (fst (create_subscription_handler JSON_parse env event st)) = 500
            \<and> snd (create_subscription_handler JSON_parse env event st) = st"
    using assms by (simp add: create_subscription_handler_def validate_request_def reply_def)
  have "\<exists>message. constructEvent lib (body event) (map_of (headers event) ''stripe-signature'')
          None = Inl message"
    by (auto simp: constructEvent_def split: option.splits)
  then have b: "STRIPE_WEBHOOK_SECRET env = None \<longrightarrow>
            statusCode (fst (webhook_handler lib env event st)) = 400
            \<and> snd (webhook_handler lib env event st) = st"
    using assms by (auto simp: webhook_handler_def Let_def)
  have c: "create_subscription_handler JSON_parse (env\<lparr>STRIPE_WEBHOOK_SECRET := w\<rparr>) event st
           = create_subscription_handler JSON_parse env event st"
    by (simp add: create_subscription_handler_def validate_request_def)
  from a b c show ?thesis by blast
qed

theorem missing_configuration_witness:
  "statusCode (fst (create_subscription_handler example_parse
       \<lparr>STRIPE_SECRET_KEY = None, STRIPE_WEBHOOK_SECRET = None\<rparr>
       checkout_request example_platform)) = 500
   \<and> snd (create_subscription_handler example_parse
       \<lparr>STRIPE_SECRET_KEY = None, STRIPE_WEBHOOK_SECRET = None\<rparr>
       checkout_request example_platform) = example_platform
   \<and> statusCode (fst (webhook_handler example_webhooks
       \<lparr>STRIPE_SECRET_KEY = None, STRIPE_WEBHOOK_SECRET = None\<rparr>
       checkout_request example_platform)) = 400"
  using missing_configuration [of checkout_request
      "\<lparr>STRIPE_SECRET_KEY = None, STRIPE_WEBHOOK_SECRET = None\<rparr>"
      example_parse example_platform example_webhooks]
  by (simp add: checkout_request_def truthy_text_def)

section \<open>The customer step and the coupon step\<close>

lemma filter_head_mem: "filter P xs = c # others \<Longrightarrow> c \<in> set xs \<and> P c"
proof -
  assume "filter P xs = c # others"
  then have "c \<in> set (filter P xs)" by simp
  then show ?thesis by simp
qed

lemma find_id_present: "c \<in> set xs \<Longrightarrow> find (\<lambda>x. cus_id x = cus_id c) xs \<noteq> None"
  by (auto simp: find_None_iff)

text \<open>
  C10. When the email of a checkout request matches an existing customer, the customer
  step (create-subscription.js, lines 64-87) uses the first customer the platform lists,
  attaches the supplied payment-method token and makes it the default payment method,
  whatever default the customer had; display names, emails and identifiers of all customers
  stay as they were, so \<open>customer_name\<close> is not written. (The platform calls are assumed
  to succeed.)
\<close>

theorem existing_customer_payment_method:
  assumes email: "scalar_text customer_email = Some e"
    and token: "scalar_text payment_method_id = Some pm"
    and existing: "filter (\<lambda>x. cus_email x = e) (customers st) = c # others"
    and avail: "CustomersList \<notin> set (outage st)" "PaymentMethodsAttach \<notin> set (outage st)"
      "CustomersUpdate \<notin> set (outage st)"
  shows "\<exists>st'. resolve_customer customer_email customer_name payment_method_id st = (Inr c, st')
           \<and> calls st' = calls st @ [CustomersList, PaymentMethodsAttach, CustomersUpdate]
           \<and> (pm, cus_id c) \<in> set (attached st')
           \<and> (\<forall>x \<in> set (customers st').
                 cus_id x = cus_id c \<longrightarrow> cus_default_payment_method x = Some pm)
           \<and> map cus_name (customers st') = map cus_name (customers st)
           \<and> map cus_email (customers st') = map cus_email (customers st)
           \<and> map cus_id (customers st') = map cus_id (customers st)"
proof -
  from filter_head_mem [OF existing] have c: "c \<in> set (customers st)" by simp
  then obtain c0 where c0: "find (\<lambda>x. cus_id x = cus_id c) (customers st) = Some c0"
    using find_id_present [OF c] by auto
  let ?upd = "\<lambda>x. if cus_id x = cus_id c then x\<lparr>cus_default_payment_method := Some pm\<rparr> else x"
  let ?st' = "st\<lparr>calls := calls st @ [CustomersList, PaymentMethodsAttach, CustomersUpdate],
                 attached := (pm, cus_id c) # attached st,
                 customers := map ?upd (customers st)\<rparr>"
  have run: "resolve_customer customer_email customer_name payment_method_id st = (Inr c, ?st')"
    using email token existing avail c c0
    by (simp add: resolve_customer_def stripe_customers_list_def stripe_paymentMethods_attach_def
        stripe_customers_update_def api_def Let_def take_Suc_conv_app_nth)
  have names: "map cus_name (map ?upd (customers st)) = map cus_name (customers st)"
    "map cus_email (map ?upd (customers st)) = map cus_email (customers st)"
    "map cus_id (map ?upd (customers st)) = map cus_id (customers st)"
    by (induction "customers st") (simp_all add: comp_def cong: map_cong)
  show ?thesis
    using run names by (intro exI [of _ ?st']) auto
qed

lemma failed_call_logged:
  "stripe_coupons_retrieve cid st = (Inl e, st') \<Longrightarrow>
     st' = st\<lparr>calls := calls st @ [CouponsRetrieve]\<rparr>"
  "stripe_coupons_create cp st = (Inl e, st') \<Longrightarrow>
     st' = st\<lparr>calls := calls st @ [CouponsCreate]\<rparr>"
  by (auto simp: stripe_coupons_retrieve_def stripe_coupons_create_def api_def Let_def
      split: option.splits if_splits)

lemma resolve_customer_found:
  assumes "resolve_customer customer_email customer_name payment_method_id st = (Inr c, st1)"
  shows "cus_id c \<in> set (map cus_id (customers st1))"
    and "outage st1 = outage st"
    and "scalar_text customer_email \<noteq> None"
    and "coupons st1 = coupons st"
    and "subscriptions st1 = subscriptions st"
proof -
  have ids: "map cus_id (map (\<lambda>x. if cus_id x = i then x\<lparr>cus_default_payment_method := d\<rparr> else x) xs)
               = map cus_id xs" for i d and xs :: "customer list"
    by (induction xs) simp_all
  have all: "cus_id c \<in> set (map cus_id (customers st1)) \<and> outage st1 = outage st
      \<and> scalar_text customer_email \<noteq> None \<and> coupons st1 = coupons st
      \<and> subscriptions st1 = subscriptions st"
    using assms
    unfolding resolve_customer_def stripe_customers_list_def stripe_paymentMethods_attach_def
      stripe_customers_update_def stripe_customers_create_def api_def Let_def
    by (auto simp: ids split: option.splits if_splits list.splits prod.splits sum.splits
        simp del: set_map map_map)
  then show "cus_id c \<in> set (map cus_id (customers st1))" "outage st1 = outage st"
    "scalar_text customer_email \<noteq> None" "coupons st1 = coupons st"
    "subscriptions st1 = subscriptions st"
    by blast+
qed

lemma create_inline_subscription:
  assumes "SubscriptionsCreate \<notin> set (outage st)"
    and "sp_customer params \<in> set (map cus_id (customers st))"
    and "sp_discounts params = []"
    and "list_all (\<lambda>(k, v). scalar_text v \<noteq> None) (sp_metadata params)"
    and "sp_items params = [Inline pd]"
  shows "\<exists>s st'. stripe_subscriptions_create params st = (Inr s, st')
           \<and> subscriptions st' = s # subscriptions st
           \<and> sub_discounts s = [] \<and> sub_status s = ''incomplete''
           \<and> coupons st' = coupons st"
  using assms
  by (simp add: stripe_subscriptions_create_def api_def Let_def inline_price_def)

theorem existing_customer_payment_method_witness:
  "\<exists>st'. resolve_customer (JStr ''a@x.com'') (JStr ''Another Name'') (JStr ''pm_2'')
            example_platform = (Inr example_customer, st')
     \<and> calls st' = calls example_platform @ [CustomersList, PaymentMethodsAttach, CustomersUpdate]
     \<and> (''pm_2'', ''cus_1'') \<in> set (attached st')
     \<and> (\<forall>x \<in> set (customers st').
           cus_id x = ''cus_1'' \<longrightarrow> cus_default_payment_method x = Some ''pm_2'')
     \<and> map cus_name (customers st') = [''A'']
     \<and> map cus_email (customers st') = [''a@x.com'']
     \<and> map cus_id (customers st') = [''cus_1'']"
  using existing_customer_payment_method [of "JStr ''a@x.com''" "''a@x.com''" "JStr ''pm_2''"
      "''pm_2''" example_platform example_customer "[]" "JStr ''Another Name''"]
  by (simp add: scalar_text_def example_platform_def example_customer_def)

text \<open>
  C9. In the checkout handler with the coupon step (part_000), when retrieving the coupon
  throws and creating it throws too, nothing of that reaches the caller: the handler goes
  on exactly as with \<open>couponId = null\<close>, the two failed calls leaving only their entries
  in the call log. If the platform then accepts the subscription, the answer is the normal
  200 response, the new subscription carries no discount and no coupon has been created.
\<close>

theorem coupon_failure_swallowed:
  assumes valid: "validate_request JSON_parse env event =
                    Inr (customer_email, customer_name, payment_method_id)"
    and customer: "resolve_customer customer_email customer_name payment_method_id st
                     = (Inr customer, st1)"
    and retrieve: "stripe_coupons_retrieve ''FIRST_4_WEEKS_50_OFF'' st1 = (Inl retrieveError, st2)"
    and create: "stripe_coupons_create first_4_weeks_coupon st2 = (Inl couponError, st3)"
  shows "coupon_subscription_handler JSON_parse env event st =
           create_and_reply
             \<lparr>sp_customer = cus_id customer,
              sp_items = [Inline coupon_price_data],
              sp_discounts = [],
              sp_metadata = [(''customer_email'', customer_email),
                             (''customer_name'', customer_name),
                             (''plan_type'', JStr ''weekly-meal-plan'')]\<rparr>
             customer (st1\<lparr>calls := calls st1 @ [CouponsRetrieve, CouponsCreate]\<rparr>)
       \<and> (SubscriptionsCreate \<notin> set (outage st) \<and> scalar_text customer_name \<noteq> None \<longrightarrow>
            (\<exists>subscription st'.
               coupon_subscription_handler JSON_parse env event st
                 = (subscription_created subscription customer, st')
               \<and> statusCode (subscription_created subscription customer) = 200
               \<and> subscriptions st' = subscription # subscriptions st1
               \<and> sub_discounts subscription = []
               \<and> coupons st' = coupons st1))"
proof -
  let ?params = "\<lparr>sp_customer = cus_id customer,
              sp_items = [Inline coupon_price_data],
              sp_discounts = [],
              sp_metadata = [(''customer_email'', customer_email),
                             (''customer_name'', customer_name),
                             (''plan_type'', JStr ''weekly-meal-plan'')]\<rparr>"
  let ?st3 = "st1\<lparr>calls := calls st1 @ [CouponsRetrieve, CouponsCreate]\<rparr>"
  have st3: "st3 = ?st3"
    using failed_call_logged(1) [OF retrieve] failed_call_logged(2) [OF create] by simp
  have coupon: "promotional_coupon st1 = (None, ?st3)"
    using retrieve create by (simp add: promotional_coupon_def st3 [symmetric])
  have run: "coupon_subscription_handler JSON_parse env event st
               = create_and_reply ?params customer ?st3"
    by (simp add: coupon_subscription_handler_def valid customer coupon discounts_for_def
        truthy_text_def)
  have ok: "\<exists>subscription st'.
               coupon_subscription_handler JSON_parse env event st
                 = (subscription_created subscription customer, st')
               \<and> statusCode (subscription_created subscription customer) = 200
               \<and> subscriptions st' = subscription # subscriptions st1
               \<and> sub_discounts subscription = []
               \<and> coupons st' = coupons st1"
    if avail: "SubscriptionsCreate \<notin> set (outage st)" and name: "scalar_text customer_name \<noteq> None"
  proof -
    have "\<exists>s st'. stripe_subscriptions_create ?params ?st3 = (Inr s, st')
           \<and> subscriptions st' = s # subscriptions ?st3
           \<and> sub_discounts s = [] \<and> sub_status s = ''incomplete''
           \<and> coupons st' = coupons ?st3"
      by (rule create_inline_subscription [where pd = coupon_price_data])
         (use avail name resolve_customer_found [OF customer] in
           \<open>simp_all add: scalar_text_def\<close>)
    then obtain s st' where s: "stripe_subscriptions_create ?params ?st3 = (Inr s, st')"
      "subscriptions st' = s # subscriptions st1" "sub_discounts s = []"
      "coupons st' = coupons st1"
      by auto
    from s show ?thesis
      by (simp add: run create_and_reply_def subscription_created_def reply_def)
  qed
  from run ok show ?thesis by blast
qed

theorem coupon_failure_swallowed_witness:
  "\<exists>subscription st'.
     coupon_subscription_handler example_parse example_environment checkout_request
       coupon_outage_platform = (subscription_created subscription example_customer, st')
     \<and> statusCode (subscription_created subscription example_customer) = 200
     \<and> sub_discounts subscription = []
     \<and> coupons st' = []"
proof -
  let ?st1 = "snd (resolve_customer (JStr ''a@x.com'') (JStr ''A'') (JStr ''pm_2'')
                 coupon_outage_platform)"
  let ?st2 = "snd (stripe_coupons_retrieve ''FIRST_4_WEEKS_50_OFF'' ?st1)"
  let ?st3 = "snd (stripe_coupons_create first_4_weeks_coupon ?st2)"
  have valid: "validate_request example_parse example_environment checkout_request
                 = Inr (JStr ''a@x.com'', JStr ''A'', JStr ''pm_2'')"
    by (simp add: validate_request_def example_parse_def example_environment_def
        checkout_request_def truthy_text_def truthy_def destructure_def)
  have customer: "resolve_customer (JStr ''a@x.com'') (JStr ''A'') (JStr ''pm_2'')
                    coupon_outage_platform = (Inr example_customer, ?st1)"
    by (simp add: resolve_customer_def stripe_customers_list_def stripe_paymentMethods_attach_def
        stripe_customers_update_def api_def scalar_text_def coupon_outage_platform_def
        example_platform_def example_customer_def Let_def)
  have out: "outage ?st1 = [CouponsRetrieve, CouponsCreate]" "coupons ?st1 = []"
    using resolve_customer_found(2,4) [OF customer]
    by (simp_all add: coupon_outage_platform_def example_platform_def)
  have retrieve: "stripe_coupons_retrieve ''FIRST_4_WEEKS_50_OFF'' ?st1
                    = (Inl ''api_connection_error'', ?st2)"
    by (simp add: stripe_coupons_retrieve_def api_def out Let_def)
  have out2: "outage ?st2 = [CouponsRetrieve, CouponsCreate]"
    by (simp add: stripe_coupons_retrieve_def api_def out Let_def)
  have create: "stripe_coupons_create first_4_weeks_coupon ?st2
                  = (Inl ''api_connection_error'', ?st3)"
    by (simp add: stripe_coupons_create_def api_def out2 Let_def)
  have avail: "SubscriptionsCreate \<notin> set (outage coupon_outage_platform)"
    by (simp add: coupon_outage_platform_def)
  have name: "scalar_text (JStr ''A'') \<noteq> None" by (simp add: scalar_text_def)
  from coupon_failure_swallowed [OF valid customer retrieve create] avail name
  obtain subscription st' where
    "coupon_subscription_handler example_parse example_environment checkout_request
       coupon_outage_platform = (subscription_created subscription example_customer, st')"
    "statusCode (subscription_created subscription example_customer) = 200"
    "sub_discounts subscription = []" "coupons st' = coupons ?st1"
    by blast
  with out(2) show ?thesis by auto
qed

section \<open>Catalog reconciliation\<close>

text \<open>What a successful reconciliation leaves behind, and what it needed.\<close>

lemma reconcile_post:
  assumes "reconcile_catalog st = (Inr priceId, st1)"
  shows "ProductsList \<notin> set (outage st) \<and> PricesList \<notin> set (outage st)
       \<and> outage st1 = outage st
       \<and> (\<exists>product price.
             find (\<lambda>p. prod_metadata p ''plan_type'' = Some ''weekly-meal-plan'')
               (take 100 (products st1)) = Some product
             \<and> find is_plan_price
                 (take 10 (filter (\<lambda>p. price_product p = prod_id product) (prices st1))) = Some price
             \<and> price_id price = priceId)"
  using assms
  unfolding reconcile_catalog_def stripe_products_list_def stripe_products_create_def
    stripe_prices_list_def stripe_prices_create_def api_def Let_def
  by (auto simp: is_plan_price_def split: if_splits option.splits prod.splits sum.splits)

lemma reconcile_found:
  assumes "ProductsList \<notin> set (outage st)" "PricesList \<notin> set (outage st)"
    and "find (\<lambda>p. prod_metadata p ''plan_type'' = Some ''weekly-meal-plan'')
           (take 100 (products st)) = Some product"
    and "find is_plan_price
           (take 10 (filter (\<lambda>p. price_product p = prod_id product) (prices st))) = Some price"
  shows "reconcile_catalog st =
           (Inr (price_id price), st\<lparr>calls := calls st @ [ProductsList, PricesList]\<rparr>)"
  using assms
  by (simp add: reconcile_catalog_def stripe_products_list_def stripe_prices_list_def
      api_def Let_def)

text \<open>
  C5. With catalog reconciliation enabled (the handler of part_000 that looks prices up
  before creating them), a reconciliation that succeeded is followed by a second one against
  a platform holding the same products and prices: the second returns the same price
  identifier, issues only the two list calls, and leaves products and prices as they were,
  so no second price is created.
\<close>

theorem reconcile_catalog_idempotent:
  assumes first: "reconcile_catalog st = (Inr priceId, st1)"
    and same: "products st2 = products st1" "prices st2 = prices st1" "outage st2 = outage st1"
  shows "\<exists>st3. reconcile_catalog st2 = (Inr priceId, st3)
           \<and> calls st3 = calls st2 @ [ProductsList, PricesList]
           \<and> prices st3 = prices st2 \<and> products st3 = products st2"
proof -
  from reconcile_post [OF first] obtain product price where
    avail: "ProductsList \<notin> set (outage st2)" "PricesList \<notin> set (outage st2)"
    and found: "find (\<lambda>p. prod_metadata p ''plan_type'' = Some ''weekly-meal-plan'')
               (take 100 (products st2)) = Some product"
      "find is_plan_price
         (take 10 (filter (\<lambda>p. price_product p = prod_id product) (prices st2))) = Some price"
    and id: "price_id price = priceId"
    by (auto simp: same)
  from reconcile_found [OF avail found] id show ?thesis by simp
qed

lemma example_reconcile:
  "reconcile_catalog example_platform =
     (Inr (''price_'' @ digits 3),
      example_platform
        \<lparr>calls := [ProductsList, ProductsCreate, PricesList, PricesCreate],
         products := [\<lparr>prod_id = ''prod_'' @ digits 2, prod_name = ''Weekly Meal Plan'',
                       prod_description =
                         Some ''Personalized weekly meal plans with nutrition coaching'',
                       prod_metadata = [''plan_type'' \<mapsto> ''weekly-meal-plan'']\<rparr>],
         next_id := 4,
         prices := [\<lparr>price_id = ''price_'' @ digits 3, price_product = ''prod_'' @ digits 2,
                     unit_amount = 2000, currency = ''aud'',
                     recurring_interval = Some ''week''\<rparr>]\<rparr>)"
  by (simp add: reconcile_catalog_def stripe_products_list_def stripe_products_create_def
      stripe_prices_list_def stripe_prices_create_def api_def Let_def example_platform_def
      is_plan_price_def eval_nat_numeral)

lemma resolve_customer_catalog:
  "resolve_customer e n pm st = (r, st') \<Longrightarrow>
     products st' = products st \<and> prices st' = prices st \<and> outage st' = outage st"
  unfolding resolve_customer_def stripe_customers_list_def stripe_paymentMethods_attach_def
    stripe_customers_update_def stripe_customers_create_def api_def Let_def
  by (auto split: option.splits if_splits list.splits prod.splits sum.splits)

lemma promotional_coupon_catalog:
  "promotional_coupon st = (r, st') \<Longrightarrow>
     products st' = products st \<and> prices st' = prices st \<and> outage st' = outage st"
  unfolding promotional_coupon_def stripe_coupons_retrieve_def stripe_coupons_create_def
    api_def Let_def
  by (auto split: option.splits if_splits prod.splits sum.splits)

lemma create_by_price_catalog:
  "create_and_reply \<lparr>sp_customer = c, sp_items = [ByPrice pid], sp_discounts = d,
                     sp_metadata = m\<rparr> customer st = (r, st') \<Longrightarrow>
     products st' = products st \<and> prices st' = prices st \<and> outage st' = outage st"
  unfolding create_and_reply_def stripe_subscriptions_create_def api_def Let_def
  by (auto split: option.splits if_splits prod.splits sum.splits)

text \<open>The rest of the checkout leaves the catalog as the reconciliation left it.\<close>

lemma checkout_keeps_catalog:
  assumes "reconcile_catalog st = (Inr priceId, st1)"
    and "validate_request JSON_parse env event = Inr (e, n, pm)"
  shows "products (snd (catalog_subscription_handler JSON_parse env event st)) = products st1
       \<and> prices (snd (catalog_subscription_handler JSON_parse env event st)) = prices st1
       \<and> outage (snd (catalog_subscription_handler JSON_parse env event st)) = outage st1"
proof -
  obtain r2 st2 where c: "resolve_customer e n pm st1 = (r2, st2)"
    by (cases "resolve_customer e n pm st1")
  note k2 = resolve_customer_catalog [OF c]
  show ?thesis
  proof (cases r2)
    case (Inl early)
    then show ?thesis
      using assms k2 by (simp add: catalog_subscription_handler_def c)
  next
    case (Inr customer)
    obtain couponId st3 where p: "promotional_coupon st2 = (couponId, st3)"
      by (cases "promotional_coupon st2")
    note k3 = promotional_coupon_catalog [OF p]
    obtain r4 st4 where s: "create_and_reply
        \<lparr>sp_customer = cus_id customer, sp_items = [ByPrice priceId],
         sp_discounts = discounts_for couponId,
         sp_metadata = [(''customer_email'', e), (''customer_name'', n),
                        (''plan_type'', JStr ''weekly-meal-plan'')]\<rparr> customer st3 = (r4, st4)"
      by (cases "create_and_reply
        \<lparr>sp_customer = cus_id customer, sp_items = [ByPrice priceId],
         sp_discounts = discounts_for couponId,
         sp_metadata = [(''customer_email'', e), (''customer_name'', n),
                        (''plan_type'', JStr ''weekly-meal-plan'')]\<rparr> customer st3")
    note k4 = create_by_price_catalog [OF s]
    show ?thesis
      using assms k2 k3 k4 Inr by (simp add: catalog_subscription_handler_def c p s)
  qed
qed

theorem reconcile_catalog_idempotent_witness:
  "\<exists>st3. reconcile_catalog
            (snd (catalog_subscription_handler example_parse example_environment
                    checkout_request example_platform))
            = (Inr (''price_'' @ digits 3), st3)
     \<and> calls st3 = calls (snd (catalog_subscription_handler example_parse example_environment
                                checkout_request example_platform))
                     @ [ProductsList, PricesList]
     \<and> prices st3 = prices (snd (catalog_subscription_handler example_parse example_environment
                                   checkout_request example_platform))
     \<and> products st3 = products (snd (catalog_subscription_handler example_parse
                                       example_environment checkout_request example_platform))"
proof -
  have valid: "validate_request example_parse example_environment checkout_request
                 = Inr (JStr ''a@x.com'', JStr ''A'', JStr ''pm_2'')"
    by (simp add: validate_request_def example_parse_def example_environment_def
        checkout_request_def truthy_text_def truthy_def destructure_def)
  note keep = checkout_keeps_catalog [OF example_reconcile valid]
  show ?thesis
    by (rule reconcile_catalog_idempotent [OF example_reconcile keep [THEN conjunct1]
          keep [THEN conjunct2, THEN conjunct1] keep [THEN conjunct2, THEN conjunct2]])
qed

section \<open>The promotional checkout and the older customer step\<close>

text \<open>
  The subscription that the handler of part_001 creates: promotional price, counters at
  0 of 4, the regular amount stored.
\<close>

lemma promotional_checkout_creates:
  assumes "validate_request JSON_parse env event = Inr (e, n, pm)"
    and "resolve_customer e n pm st = (Inr customer, st1)"
    and "SubscriptionsCreate \<notin> set (outage st)" and "scalar_text n \<noteq> None"
  shows "\<exists>s st' p. promotional_subscription_handler JSON_parse env event st
                      = (subscription_created s customer, st')
           \<and> subscriptions st' = s # subscriptions st1 \<and> outage st' = outage st
           \<and> sub_id s \<noteq> []
           \<and> sub_metadata s ''promotional_weeks_used'' = Some ''0''
           \<and> sub_metadata s ''promotional_weeks_total'' = Some ''4''
           \<and> sub_metadata s ''regular_price_amount'' = Some ''2000''
           \<and> sub_metadata s ''plan_type'' = Some ''weekly-meal-plan''
           \<and> sub_status s = ''incomplete''
           \<and> active_price s = Some p
           \<and> unit_amount p = 1000 \<and> currency p = ''aud'' \<and> recurring_interval p = Some ''week''"
  using assms resolve_customer_found [OF assms(2)]
  by (simp add: promotional_subscription_handler_def create_and_reply_def
      stripe_subscriptions_create_def api_def Let_def inline_price_def scalar_text_def
      active_price_def promotional_price_data_def split: option.splits)

theorem four_promotional_weeks_witness:
  "\<exists>checkout s.
     promotional_subscription_handler example_parse example_environment checkout_request
       example_platform = (subscription_created s example_customer, checkout)
     \<and> (\<exists>s' p. lookup_subscription (sub_id s)
               (deliver [payment_succeeded ''in_1'' (sub_id s), payment_succeeded ''in_2'' (sub_id s),
                         payment_succeeded ''in_3'' (sub_id s), payment_succeeded ''in_4'' (sub_id s)]
                  checkout) = Some s'
          \<and> sub_metadata s' ''promotional_weeks_used'' = None
          \<and> sub_metadata s' ''promotional_weeks_total'' = None
          \<and> active_price s' = Some p \<and> is_regular_price p)"
proof -
  have valid: "validate_request example_parse example_environment checkout_request
                 = Inr (JStr ''a@x.com'', JStr ''A'', JStr ''pm_2'')"
    by (simp add: validate_request_def example_parse_def example_environment_def
        checkout_request_def truthy_text_def truthy_def destructure_def)
  have customer: "resolve_customer (JStr ''a@x.com'') (JStr ''A'') (JStr ''pm_2'') example_platform
      = (Inr example_customer,
         snd (resolve_customer (JStr ''a@x.com'') (JStr ''A'') (JStr ''pm_2'') example_platform))"
    by (simp add: resolve_customer_def stripe_customers_list_def stripe_paymentMethods_attach_def
        stripe_customers_update_def api_def scalar_text_def
        example_platform_def example_customer_def Let_def)
  from promotional_checkout_creates [OF valid customer]
  obtain s checkout where created:
    "promotional_subscription_handler example_parse example_environment checkout_request
       example_platform = (subscription_created s example_customer, checkout)"
    "subscriptions checkout = s # subscriptions
       (snd (resolve_customer (JStr ''a@x.com'') (JStr ''A'') (JStr ''pm_2'') example_platform))"
    "outage checkout = outage example_platform" "sub_id s \<noteq> []"
    "sub_metadata s ''promotional_weeks_used'' = Some ''0''"
    "sub_metadata s ''promotional_weeks_total'' = Some ''4''"
    "active_price s \<noteq> None"
    by (auto simp: example_platform_def scalar_text_def)
  have look: "lookup_subscription (sub_id s) checkout = Some s"
    by (simp add: lookup_subscription_def created(2))
  have items: "sub_items s \<noteq> []"
    using created(7) by (auto simp: active_price_def)
  have avail: "SubscriptionsRetrieve \<notin> set (outage checkout)"
    "SubscriptionsUpdate \<notin> set (outage checkout)"
    by (simp_all add: created(3) example_platform_def)
  have "\<exists>s' p. lookup_subscription (sub_id s)
               (deliver [payment_succeeded ''in_1'' (sub_id s), payment_succeeded ''in_2'' (sub_id s),
                         payment_succeeded ''in_3'' (sub_id s), payment_succeeded ''in_4'' (sub_id s)]
                  checkout) = Some s'
          \<and> sub_metadata s' ''promotional_weeks_used'' = None
          \<and> sub_metadata s' ''promotional_weeks_total'' = None
          \<and> active_price s' = Some p \<and> is_regular_price p"
    using four_promotional_weeks [OF look created(4,5,6) items avail,
        of "[payment_succeeded ''in_1'' (sub_id s), payment_succeeded ''in_2'' (sub_id s),
             payment_succeeded ''in_3'' (sub_id s), payment_succeeded ''in_4'' (sub_id s)]"]
    by (simp add: payment_succeeded_def)
  with created(1) show ?thesis by blast
qed

text \<open>The customer step of part_002 leaves an existing customer as it is.\<close>

lemma find_or_create_customer_reuses:
  assumes "scalar_text customer_email = Some e"
    and "filter (\<lambda>x. cus_email x = e) (customers st) = c # others"
    and "CustomersList \<notin> set (outage st)"
  shows "find_or_create_customer customer_email customer_name payment_method_id st
           = (Inr c, st\<lparr>calls := calls st @ [CustomersList]\<rparr>)"
  using assms
  by (simp add: find_or_create_customer_def stripe_customers_list_def api_def Let_def
      take_Suc_conv_app_nth)

end
